theory Spec2Isabelle
  imports Complex_Main
begin

section \<open>Exceptions and numeric arrays\<close>

text \<open>
  The Python exceptions that the modelled code can raise or let through. A fallible
  computation returns \<open>exn + 'a\<close>, with \<open>Inl\<close> the raised exception.
\<close>

datatype exn =
    NotImplementedError
  | AssertionError
  | ValueError
  | IndexError
  | AttributeError
  | AxisError

text \<open>
  A numpy array is its shape together with its entries, read at a multi-index. Floating
  point numbers are abstracted to the reals: rounding, \<open>nan\<close> and \<open>inf\<close> are not
  modelled, and a division by zero (which numpy answers with \<open>nan\<close> or \<open>inf\<close> and a
  warning, never an exception) has HOL's value \<open>0\<close>.
\<close>

record ndarray =
  shape :: "nat list"
  elt :: "nat list \<Rightarrow> real"

definition indices :: "nat list \<Rightarrow> nat list list" where
  "indices sh = List.product_lists (map (\<lambda>n. [0..<n]) sh)"

definition of_rows :: "real list list \<Rightarrow> ndarray" where
  "of_rows rs = \<lparr>shape = [length rs, (case rs of [] \<Rightarrow> 0 | r # _ \<Rightarrow> length r)],
                elt = (\<lambda>idx. case idx of [i, j] \<Rightarrow> rs ! i ! j | _ \<Rightarrow> 0)\<rparr>"

definition of_list :: "real list \<Rightarrow> ndarray" where
  "of_list xs = \<lparr>shape = [length xs], elt = (\<lambda>idx. case idx of [i] \<Rightarrow> xs ! i | _ \<Rightarrow> 0)\<rparr>"

definition shape_at :: "ndarray \<Rightarrow> nat \<Rightarrow> exn + nat" where
  "shape_at A k = (if k < length (shape A) then Inr (shape A ! k) else Inl IndexError)"

text \<open>Broadcasting: shapes are aligned at their last axis; an axis of length 1 stretches.\<close>

fun bshape_rev :: "nat list \<Rightarrow> nat list \<Rightarrow> nat list option" where
  "bshape_rev [] ys = Some ys"
| "bshape_rev xs [] = Some xs"
| "bshape_rev (x # xs) (y # ys) =
     (if x = y \<or> y = 1 then map_option ((#) x) (bshape_rev xs ys)
      else if x = 1 then map_option ((#) y) (bshape_rev xs ys)
      else None)"

definition bshape :: "nat list \<Rightarrow> nat list \<Rightarrow> nat list option" where
  "bshape s t = map_option rev (bshape_rev (rev s) (rev t))"

definition bidx :: "nat list \<Rightarrow> nat list \<Rightarrow> nat list" where
  "bidx s idx = map2 (\<lambda>d i. if d = 1 then 0 else i) s (drop (length idx - length s) idx)"


text \<open>An in-place operation \<open>A op= B\<close> needs the broadcast shape to be the shape of \<open>A\<close>.\<close>

definition inplace :: "(real \<Rightarrow> real \<Rightarrow> real) \<Rightarrow> ndarray \<Rightarrow> ndarray \<Rightarrow> exn + ndarray" where
  "inplace f A B =
     (if bshape (shape A) (shape B) = Some (shape A)
      then Inr (A\<lparr>elt := (\<lambda>idx. f (elt A idx) (elt B (bidx (shape B) idx)))\<rparr>)
      else Inl ValueError)"

definition smul :: "real \<Rightarrow> ndarray \<Rightarrow> ndarray" where
  "smul c A = A\<lparr>elt := (\<lambda>idx. c * elt A idx)\<rparr>"

definition sdiv :: "ndarray \<Rightarrow> real \<Rightarrow> ndarray" where
  "sdiv A c = A\<lparr>elt := (\<lambda>idx. elt A idx / c)\<rparr>"

definition neg :: "ndarray \<Rightarrow> ndarray" where
  "neg A = A\<lparr>elt := (\<lambda>idx. - elt A idx)\<rparr>"

definition transpose2 :: "ndarray \<Rightarrow> ndarray" where
  "transpose2 A = \<lparr>shape = rev (shape A), elt = (\<lambda>idx. elt A (rev idx))\<rparr>"

definition sum_all :: "ndarray \<Rightarrow> real" where
  "sum_all A = sum_list (map (elt A) (indices (shape A)))"

text \<open>\<open>A.max()\<close> raises \<open>ValueError\<close> on an array without entries.\<close>

definition max_all :: "ndarray \<Rightarrow> exn + real" where
  "max_all A =
     (if indices (shape A) = [] then Inl ValueError
      else Inr (Max (elt A ` set (indices (shape A)))))"

definition ins :: "nat \<Rightarrow> nat \<Rightarrow> nat list \<Rightarrow> nat list" where
  "ins a k idx = take a idx @ k # drop a idx"

definition sum_axis :: "nat \<Rightarrow> ndarray \<Rightarrow> exn + ndarray" where
  "sum_axis a A =
     (if a < length (shape A)
      then Inr \<lparr>shape = take a (shape A) @ drop (Suc a) (shape A),
                elt = (\<lambda>idx. \<Sum>k<shape A ! a. elt A (ins a k idx))\<rparr>
      else Inl AxisError)"

text \<open>
  The reductions \<open>A.mean(0)\<close>, \<open>A.var(0)\<close> and \<open>A.std(0)\<close> along the first axis, for an
  array that has one.
\<close>

definition mean0 :: "ndarray \<Rightarrow> ndarray" where
  "mean0 A = \<lparr>shape = tl (shape A),
              elt = (\<lambda>idx. (\<Sum>k<hd (shape A). elt A (k # idx)) / real (hd (shape A)))\<rparr>"

definition var0 :: "ndarray \<Rightarrow> ndarray" where
  "var0 A = \<lparr>shape = tl (shape A),
             elt = (\<lambda>idx. (\<Sum>k<hd (shape A). (elt A (k # idx) - elt (mean0 A) idx)\<^sup>2)
                          / real (hd (shape A)))\<rparr>"

definition std0 :: "ndarray \<Rightarrow> ndarray" where
  "std0 A = \<lparr>shape = tl (shape A), elt = (\<lambda>idx. sqrt (elt (var0 A) idx))\<rparr>"

text \<open>The slice \<open>A[:n]\<close> of a one-dimensional array.\<close>

definition take0 :: "nat \<Rightarrow> ndarray \<Rightarrow> ndarray" where
  "take0 n A = A\<lparr>shape := (case shape A of [] \<Rightarrow> [] | d # ds \<Rightarrow> min n d # ds)\<rparr>"

text \<open>
  The assignment \<open>A[:B.shape[0], :B.shape[1]] = B\<close> for two-dimensional \<open>A\<close>. The slice is
  clipped to the shape of \<open>A\<close>, and \<open>B\<close> must broadcast to the clipped slice.
\<close>

definition set_leading_block :: "ndarray \<Rightarrow> ndarray \<Rightarrow> exn + ndarray" where
  "set_leading_block A B =
     (case shape B of
        [r, c] \<Rightarrow>
          (case shape A of
             [n, q] \<Rightarrow>
               if (r \<le> n \<or> r = 1) \<and> (c \<le> q \<or> c = 1)
               then Inr (A\<lparr>elt := (\<lambda>idx. case idx of
                                           [i, j] \<Rightarrow> if i < r \<and> j < c then elt B [i, j] else elt A idx
                                         | _ \<Rightarrow> elt A idx)\<rparr>)
               else Inl ValueError
           | _ \<Rightarrow> Inl IndexError)
      | _ \<Rightarrow> Inl IndexError)"

section \<open>The latent initialiser (\<open>GPy/util/initialization.py\<close>)\<close>

text \<open>
  The random draws are read from an entropy source: \<open>np.random.normal(0, 1, shape)\<close>
  fills the requested shape from \<open>normal_src\<close>, \<open>np.random.uniform(lo, hi, n)\<close> maps
  the unit draws \<open>uniform_src\<close> into \<open>[lo, hi)\<close>, and the multivariate normal sample
  depends on the covariance it is given.
\<close>

record pca =
  fracs :: ndarray
  project :: "ndarray \<Rightarrow> nat \<Rightarrow> ndarray"

record latent_env =
  normal_src :: "nat list \<Rightarrow> real"
  uniform_src :: "nat \<Rightarrow> real"
  mvn_src :: "ndarray \<Rightarrow> nat list \<Rightarrow> real"
  PCA :: "ndarray \<Rightarrow> pca"

datatype warning = DeprecationWarning string

definition random_normal :: "latent_env \<Rightarrow> nat list \<Rightarrow> ndarray" where
  "random_normal env sh = \<lparr>shape = sh, elt = normal_src env\<rparr>"

definition random_uniform :: "latent_env \<Rightarrow> real \<Rightarrow> real \<Rightarrow> nat \<Rightarrow> ndarray" where
  "random_uniform env lo hi n =
     \<lparr>shape = [n], elt = (\<lambda>idx. case idx of [i] \<Rightarrow> lo + (hi - lo) * uniform_src env i | _ \<Rightarrow> 0)\<rparr>"

definition multivariate_normal :: "latent_env \<Rightarrow> ndarray \<Rightarrow> nat \<Rightarrow> ndarray" where
  "multivariate_normal env cov n = \<lparr>shape = [n, hd (shape cov)], elt = mvn_src env cov\<rparr>"

text \<open>
  Modelled from the spec: \<open>tdot\<close> and \<open>diag.add\<close> of \<open>GPy.util\<close> are not among the
  sources. The spec describes their result as the empirical second-moment matrix of
  \<open>Y\<close>, regularised by adding a small constant to its diagonal.
\<close>

definition tdot :: "ndarray \<Rightarrow> ndarray" where
  "tdot Y = \<lparr>shape = [hd (shape Y), hd (shape Y)],
             elt = (\<lambda>idx. case idx of
                      [i, j] \<Rightarrow> (\<Sum>k<shape Y ! 1. elt Y [i, k] * elt Y [j, k])
                    | _ \<Rightarrow> 0)\<rparr>"

definition diag_add :: "ndarray \<Rightarrow> real \<Rightarrow> ndarray" where
  "diag_add A c = A\<lparr>elt := (\<lambda>idx. case idx of
                                 [i, j] \<Rightarrow> if i = j then elt A idx + c else elt A idx
                               | _ \<Rightarrow> elt A idx)\<rparr>"

text \<open>
  Lines 15 to 53 of \<open>initialize_latent\<close>: the base matrix and the variance vector of the
  branch chosen by \<open>init\<close>, before the post-processing, with the warnings emitted.
\<close>

definition latent_branch ::
  "latent_env \<Rightarrow> string \<Rightarrow> nat \<Rightarrow> ndarray \<Rightarrow> (exn + ndarray \<times> ndarray) \<times> warning list" where
  "latent_branch env init input_dim Y =
     (case shape_at Y 0 of
        Inl e \<Rightarrow> (Inl e, [])
      | Inr N \<Rightarrow>
          let Xr = random_normal env [N, input_dim] in
          if ''PCA'' = init then
            (case shape_at Y 1 of
               Inl e \<Rightarrow> (Inl e, [])
             | Inr D \<Rightarrow>
                 let p = PCA env Y;
                     PC = project p Y (min input_dim D)
                 in (case set_leading_block Xr PC of
                       Inl e \<Rightarrow> (Inl e, [])
                     | Inr Xr' \<Rightarrow> (Inr (Xr', smul (1 / 10) (take0 input_dim (fracs p))), [])))
          else if init = ''empirical_samples'' then
            (let w = [DeprecationWarning
                        ''Deprecated initialization method 'empirical_samples'. Use 'random' instead.'']
             in case shape_at Y 1 of
                  Inl e \<Rightarrow> (Inl e, w)
                | Inr D \<Rightarrow>
                    let YYT = diag_add (tdot Y) (1 / 1000000);
                        EMP = transpose2 (multivariate_normal env YYT (min input_dim D))
                    in (case set_leading_block Xr EMP of
                          Inl e \<Rightarrow> (Inl e, w)
                        | Inr Xr' \<Rightarrow> (Inr (Xr', random_uniform env (1 / 2) (3 / 2) input_dim), w)))
          else if init = ''random'' then
            (Inr (Xr, var0 Xr), [])
          else
            (Inr (Xr, var0 Xr),
             [DeprecationWarning
                (init @ '' is not a valid initialization method.Supoprt for anything else than 'PCA' or 'random' will be removed in the next major release.'')]))"

text \<open>Lines 56 to 59: centre and scale the columns, normalise the variance by its maximum.\<close>

definition latent_post :: "ndarray \<times> ndarray \<Rightarrow> exn + ndarray \<times> ndarray" where
  "latent_post xv =
     (case xv of (Xr, var) \<Rightarrow>
        (case inplace (-) Xr (mean0 Xr) of
           Inl e \<Rightarrow> Inl e
         | Inr Xr1 \<Rightarrow>
             (case inplace (/) Xr1 (std0 Xr1) of
                Inl e \<Rightarrow> Inl e
              | Inr Xr2 \<Rightarrow>
                  (case max_all var of
                     Inl e \<Rightarrow> Inl e
                   | Inr m \<Rightarrow> Inr (Xr2, sdiv var m)))))"

text \<open>
  \<open>initialize_latent(init, input_dim, Y)\<close>. A negative \<open>input_dim\<close> is refused by
  \<open>np.random.normal\<close> with \<open>ValueError\<close>.
\<close>

definition initialize_latent ::
  "latent_env \<Rightarrow> string \<Rightarrow> int \<Rightarrow> ndarray \<Rightarrow> (exn + ndarray \<times> ndarray) \<times> warning list" where
  "initialize_latent env init input_dim Y =
     (if input_dim < 0 then
        (case shape_at Y 0 of Inl e \<Rightarrow> (Inl e, []) | Inr N \<Rightarrow> (Inl ValueError, []))
      else
        (case latent_branch env init (nat input_dim) Y of
           (Inl e, w) \<Rightarrow> (Inl e, w)
         | (Inr xv, w) \<Rightarrow> (latent_post xv, w)))"

section \<open>The kernel gradient checker (\<open>GPy/testing/test_kernel.py\<close>)\<close>

subsection \<open>External capabilities\<close>

text \<open>
  A kernel is consumed through its capability interface only. Each capability may raise,
  \<open>NotImplementedError\<close> being the signal for a missing derivative. An omitted second
  location matrix is \<open>None\<close>.
\<close>

record kern =
  input_dim :: nat
  output_dim :: nat
  name :: string
  K :: "ndarray \<Rightarrow> ndarray option \<Rightarrow> exn + ndarray"
  gradients_X :: "ndarray \<Rightarrow> ndarray \<Rightarrow> ndarray option \<Rightarrow> exn + ndarray"
  gradients_X_diag :: "ndarray \<Rightarrow> ndarray \<Rightarrow> exn + ndarray"
  gradients_XX :: "ndarray \<Rightarrow> ndarray \<Rightarrow> ndarray option \<Rightarrow> exn + ndarray"

datatype dims = Dim int | Dims "int list"

datatype adapter_class =
    Cls_dK_dtheta
  | Cls_dKdiag_dtheta
  | Cls_dK_dX
  | Cls_dKdiag_dX
  | Cls_d2K_dXdX
  | Cls_d2Kdiag_dXdX

datatype event =
    Printed string
  | Printed_num real
  | Checkgrad adapter_class bool bool

text \<open>
  Arrays that the code shares and mutates live in a store; \<open>copy()\<close> allocates a new cell.
\<close>

record store =
  cells :: "nat \<Rightarrow> ndarray"
  next_free :: nat

definition empty_store :: store where
  "empty_store = \<lparr>cells = (\<lambda>_. \<lparr>shape = [], elt = (\<lambda>_. 0)\<rparr>), next_free = 0\<rparr>"

definition alloc :: "store \<Rightarrow> ndarray \<Rightarrow> nat \<times> store" where
  "alloc h a = (next_free h, h\<lparr>cells := (cells h)(next_free h := a), next_free := Suc (next_free h)\<rparr>)"

definition copy :: "store \<Rightarrow> nat \<Rightarrow> nat \<times> store" where
  "copy h a = alloc h (cells h a)"




record psi_state =
  Z :: ndarray
  qX :: ndarray
  w1 :: ndarray
  w2 :: ndarray
  w3 :: ndarray
  w3n :: ndarray
  param_array :: ndarray


type_synonym objective = "psi_state \<Rightarrow> ndarray \<Rightarrow> (exn + real) \<times> psi_state"

type_synonym gradient = "psi_state \<Rightarrow> ndarray \<Rightarrow> (exn + ndarray) \<times> psi_state"

text \<open>
  What the code takes from GPy, numpy and the Python runtime. Random draws are indexed by
  the call that makes them, so that different calls draw independently.
  \<open>randomize c k\<close> is the kernel after \<open>k.randomize(loc=1, scale=0.1)\<close>;
  \<open>Param_shares\<close> says whether \<open>Param(name, a)\<close> keeps the array \<open>a\<close> or copies it, and
  \<open>Param_None\<close> is its answer to \<open>None\<close>;
  \<open>checkgrad cls k X X2 fixed verbose n\<close> is the outcome of building the adapter
  \<open>cls(k, X=X, X2=X2)\<close>, fixing the columns \<open>fixed\<close> of its free \<open>X\<close> and calling its
  \<open>checkgrad(verbose=verbose)\<close>, \<open>n\<close> telling the first run (0) from the diagnostic
  re-run (1); \<open>randomized i\<close> is the parameter array of the \<open>i\<close>-th kernel of the Psi test
  after its \<open>randomize()\<close>, and \<open>GradientChecker_checkgrad f df x0 verbose s\<close> is the
  verdict of \<open>GradientChecker(f, df, x0).checkgrad(verbose)\<close> run in state \<open>s\<close>, with the
  state it leaves; \<open>debug\<close> is Python's \<open>__debug__\<close>: \<open>assert\<close> statements are executed
  unless the interpreter runs with \<open>-O\<close>.
\<close>

record gpy =
  RBF :: "nat \<Rightarrow> kern"
  randomize :: "nat \<Rightarrow> kern \<Rightarrow> kern"
  randn_src :: "nat \<Rightarrow> nat list \<Rightarrow> real"
  rand_src :: "nat \<Rightarrow> nat list \<Rightarrow> real"
  randint_src :: "nat \<Rightarrow> nat"
  eig :: "ndarray \<Rightarrow> complex list"
  Param_shares :: bool
  Param_None :: "exn + ndarray"
  checkgrad :: "adapter_class \<Rightarrow> kern \<Rightarrow> ndarray \<Rightarrow> ndarray option \<Rightarrow> dims option
                  \<Rightarrow> bool \<Rightarrow> nat \<Rightarrow> exn + bool"
  randomized :: "nat \<Rightarrow> ndarray"
  GradientChecker_checkgrad ::
    "objective \<Rightarrow> gradient \<Rightarrow> ndarray \<Rightarrow> bool \<Rightarrow> psi_state \<Rightarrow> (exn + bool) \<times> psi_state"
  debug :: bool

definition randn :: "gpy \<Rightarrow> nat \<Rightarrow> nat list \<Rightarrow> ndarray" where
  "randn env c sh = \<lparr>shape = sh, elt = randn_src env c\<rparr>"

definition rand :: "gpy \<Rightarrow> nat \<Rightarrow> nat list \<Rightarrow> ndarray" where
  "rand env c sh = \<lparr>shape = sh, elt = rand_src env c\<rparr>"

text \<open>
  \<open>np.random.randint(low, high)\<close> with no size: one integer of \<open>[low, high)\<close>, or
  \<open>ValueError\<close> when the interval is empty.
\<close>

definition randint :: "gpy \<Rightarrow> nat \<Rightarrow> int \<Rightarrow> int \<Rightarrow> exn + int" where
  "randint env c low high =
     (if high \<le> low then Inl ValueError
      else Inr (low + int (randint_src env c) mod (high - low)))"

definition Param :: "gpy \<Rightarrow> store \<Rightarrow> nat option \<Rightarrow> exn + nat \<times> store" where
  "Param env h a =
     (case a of
        None \<Rightarrow> (case Param_None env of Inl e \<Rightarrow> Inl e | Inr v \<Rightarrow> Inr (alloc h v))
      | Some a \<Rightarrow> Inr (if Param_shares env then (a, h) else copy h a))"

subsection \<open>The adapters\<close>

text \<open>
  The base class holds the kernel, the location matrices and \<open>dL_dK\<close>. An adapter whose
  free parameter is \<open>X\<close> also holds the gradient buffer of that parameter:
  \<open>link_parameter\<close> registers \<open>X\<close> with the model, which from then on has the buffer
  \<open>X_gradient\<close>, of the shape of \<open>X\<close> and zero at first. The parameterization framework
  ends the construction of a model with a run of the \<open>parameters_changed\<close> of the class
  that is built; what that run raises, the constructor raises. The base class leaves
  \<open>parameters_changed\<close> empty.
\<close>

record model =
  kernel :: kern
  X :: nat
  X2 :: "ndarray option"
  dL_dK :: ndarray

record x_model = model +
  X_gradient :: ndarray

record d2K_model = x_model +
  Xc :: nat

definition Kern_check_model ::
  "gpy \<Rightarrow> nat \<Rightarrow> store \<Rightarrow> kern option \<Rightarrow> ndarray option \<Rightarrow> nat option \<Rightarrow> ndarray option
     \<Rightarrow> model \<times> store" where
  "Kern_check_model env c h kernel' dL_dK' X' X2' =
     (let k = (case kernel' of None \<Rightarrow> RBF env 1 | Some k \<Rightarrow> k);
          k = randomize env c k;
          (a, h) = (case X' of None \<Rightarrow> alloc h (randn env c [20, input_dim k])
                             | Some a \<Rightarrow> (a, h));
          d = (case dL_dK' of
                 None \<Rightarrow>
                   (case X2' of
                      None \<Rightarrow> rand env c [shape (cells h a) ! 0, shape (cells h a) ! 0]
                    | Some x2 \<Rightarrow> rand env c [shape (cells h a) ! 0, shape x2 ! 0])
               | Some d \<Rightarrow> d)
      in (\<lparr>kernel = k, X = a, X2 = X2', dL_dK = d\<rparr>, h))"

definition is_positive_semi_definite ::
  "gpy \<Rightarrow> store \<Rightarrow> model \<Rightarrow> (exn + bool) \<times> event list" where
  "is_positive_semi_definite env h m =
     (case K (kernel m) (cells h (X m)) None of
        Inl e \<Rightarrow> (Inl e, [])
      | Inr Kxx \<Rightarrow>
          let v = eig env Kxx in
          if list_ex (\<lambda>z. Re z \<le> - (1 / 10000000000)) v
          then (Inr False, [Printed_num (Min (set (map Re v)))])
          else (Inr True, []))"

text \<open>
  The assignment \<open>g[:] = v\<close> into a buffer of shape \<open>sh\<close>: \<open>v\<close> must broadcast to \<open>sh\<close>.
\<close>

definition assign_all :: "nat list \<Rightarrow> ndarray \<Rightarrow> exn + ndarray" where
  "assign_all sh v =
     (if bshape sh (shape v) = Some sh
      then Inr \<lparr>shape = sh, elt = (\<lambda>idx. elt v (bidx (shape v) idx))\<rparr>
      else Inl ValueError)"

definition zeros :: "nat list \<Rightarrow> ndarray" where
  "zeros sh = \<lparr>shape = sh, elt = (\<lambda>_. 0)\<rparr>"

text \<open>
  \<open>A.diagonal()\<close>: the diagonal over the first two axes, as the last axis of the result;
  \<open>ValueError\<close> for an array of fewer than two axes.
\<close>

definition diagonal :: "ndarray \<Rightarrow> exn + ndarray" where
  "diagonal A =
     (case shape A of
        d0 # d1 # rest \<Rightarrow>
          Inr \<lparr>shape = rest @ [min d0 d1],
               elt = (\<lambda>idx. if idx = [] then 0
                             else elt A (last idx # last idx # butlast idx))\<rparr>
      | _ \<Rightarrow> Inl ValueError)"

definition link_parameter :: "store \<Rightarrow> model \<Rightarrow> x_model" where
  "link_parameter h m =
     \<lparr>kernel = kernel m, X = X m, X2 = X2 m, dL_dK = dL_dK m,
      X_gradient = zeros (shape (cells h (X m)))\<rparr>"

text \<open>
  \<open>Kern_check_dK_dX\<close>: the body of \<open>__init__\<close> (lines 95 to 98), \<open>parameters_changed\<close>
  (line 101), and the constructor, which is the body followed by \<open>parameters_changed\<close>.
\<close>

definition Kern_check_dK_dX_init ::
  "gpy \<Rightarrow> nat \<Rightarrow> store \<Rightarrow> kern option \<Rightarrow> ndarray option \<Rightarrow> nat option \<Rightarrow> ndarray option
     \<Rightarrow> exn + x_model \<times> store" where
  "Kern_check_dK_dX_init env c h kernel' dL_dK' X' X2' =
     (let (m, h) = Kern_check_model env c h kernel' dL_dK' X' X2' in
      case Param env h X' of
        Inl e \<Rightarrow> Inl e
      | Inr (p, h) \<Rightarrow> Inr (link_parameter h (m\<lparr>X := p\<rparr>), h))"

definition dK_dX_parameters_changed :: "store \<Rightarrow> x_model \<Rightarrow> exn + x_model" where
  "dK_dX_parameters_changed h m =
     (case gradients_X (kernel m) (dL_dK m) (cells h (X m)) (X2 m) of
        Inl e \<Rightarrow> Inl e
      | Inr grads \<Rightarrow>
          (case assign_all (shape (X_gradient m)) grads of
             Inl e \<Rightarrow> Inl e
           | Inr g \<Rightarrow> Inr (m\<lparr>X_gradient := g\<rparr>)))"

definition Kern_check_dK_dX ::
  "gpy \<Rightarrow> nat \<Rightarrow> store \<Rightarrow> kern option \<Rightarrow> ndarray option \<Rightarrow> nat option \<Rightarrow> ndarray option
     \<Rightarrow> exn + x_model \<times> store" where
  "Kern_check_dK_dX env c h kernel' dL_dK' X' X2' =
     (case Kern_check_dK_dX_init env c h kernel' dL_dK' X' X2' of
        Inl e \<Rightarrow> Inl e
      | Inr (m, h) \<Rightarrow>
          (case dK_dX_parameters_changed h m of
             Inl e \<Rightarrow> Inl e
           | Inr m \<Rightarrow> Inr (m, h)))"

text \<open>
  \<open>Kern_check_dKdiag_dX\<close>: its \<open>__init__\<close> is that of \<open>Kern_check_dK_dX\<close> with
  \<open>X2=None\<close> (lines 107 to 110); its own \<open>parameters_changed\<close> (line 116) ends the
  construction.
\<close>

definition dKdiag_dX_parameters_changed :: "store \<Rightarrow> x_model \<Rightarrow> exn + x_model" where
  "dKdiag_dX_parameters_changed h m =
     (case diagonal (dL_dK m) of
        Inl e \<Rightarrow> Inl e
      | Inr dg \<Rightarrow>
          (case gradients_X_diag (kernel m) dg (cells h (X m)) of
             Inl e \<Rightarrow> Inl e
           | Inr grads \<Rightarrow>
               (case assign_all (shape (X_gradient m)) grads of
                  Inl e \<Rightarrow> Inl e
                | Inr g \<Rightarrow> Inr (m\<lparr>X_gradient := g\<rparr>))))"

definition Kern_check_dKdiag_dX ::
  "gpy \<Rightarrow> nat \<Rightarrow> store \<Rightarrow> kern option \<Rightarrow> ndarray option \<Rightarrow> nat option \<Rightarrow> ndarray option
     \<Rightarrow> exn + x_model \<times> store" where
  "Kern_check_dKdiag_dX env c h kernel' dL_dK' X' X2' =
     (case Kern_check_dK_dX_init env c h kernel' dL_dK' X' None of
        Inl e \<Rightarrow> Inl e
      | Inr (m, h) \<Rightarrow>
          (case dKdiag_dX_parameters_changed h m of
             Inl e \<Rightarrow> Inl e
           | Inr m \<Rightarrow> Inr (m, h)))"

text \<open>
  \<open>Kern_check_d2K_dXdX\<close>: the body of \<open>__init__\<close> (lines 122 to 128), the objective
  (lines 130 to 133), \<open>parameters_changed\<close> (lines 135 to 144), and the constructor.
\<close>

definition Kern_check_d2K_dXdX_init ::
  "gpy \<Rightarrow> nat \<Rightarrow> store \<Rightarrow> kern option \<Rightarrow> ndarray option \<Rightarrow> nat option \<Rightarrow> ndarray option
     \<Rightarrow> exn + d2K_model \<times> store" where
  "Kern_check_d2K_dXdX_init env c h kernel' dL_dK' X' X2' =
     (let (m, h) = Kern_check_model env c h kernel' dL_dK' X' X2' in
      case X' of
        None \<Rightarrow> Inl AttributeError
      | Some a \<Rightarrow>
          let (a1, h) = copy h a in
          (case Param env h (Some a1) of
             Inl e \<Rightarrow> Inl e
           | Inr (p, h) \<Rightarrow>
               let xm = link_parameter h (m\<lparr>X := p\<rparr>);
                   (a2, h) = copy h a
               in Inr (\<lparr>kernel = kernel xm, X = X xm, X2 = X2 xm, dL_dK = dL_dK xm,
                        X_gradient = X_gradient xm, Xc = a2\<rparr>, h)))"

definition d2K_log_likelihood :: "store \<Rightarrow> d2K_model \<Rightarrow> exn + real" where
  "d2K_log_likelihood h m =
     (case X2 m of
        None \<Rightarrow>
          map_sum id sum_all
            (gradients_X (kernel m) (dL_dK m) (cells h (X m)) (Some (cells h (Xc m))))
      | Some x2 \<Rightarrow>
          map_sum id sum_all (gradients_X (kernel m) (dL_dK m) (cells h (X m)) (Some x2)))"

definition d2K_parameters_changed :: "store \<Rightarrow> d2K_model \<Rightarrow> exn + d2K_model" where
  "d2K_parameters_changed h m =
     (case (case X2 m of
              None \<Rightarrow>
                (case gradients_XX (kernel m) (dL_dK m) (cells h (X m)) None of
                   Inl e \<Rightarrow> Inl e
                 | Inr G \<Rightarrow>
                     (case sum_axis 1 G of
                        Inl e \<Rightarrow> Inl e
                      | Inr G1 \<Rightarrow> map_sum id neg (sum_axis 1 G1)))
            | Some x2 \<Rightarrow>
                (case gradients_XX (kernel m) (transpose2 (dL_dK m)) x2 (Some (cells h (X m))) of
                   Inl e \<Rightarrow> Inl e
                 | Inr G \<Rightarrow>
                     (case sum_axis 0 G of
                        Inl e \<Rightarrow> Inl e
                      | Inr G1 \<Rightarrow> map_sum id neg (sum_axis 1 G1)))) of
        Inl e \<Rightarrow> Inl e
      | Inr grads \<Rightarrow>
          (case assign_all (shape (X_gradient m)) grads of
             Inl e \<Rightarrow> Inl e
           | Inr g \<Rightarrow> Inr (m\<lparr>X_gradient := g\<rparr>)))"

definition Kern_check_d2K_dXdX ::
  "gpy \<Rightarrow> nat \<Rightarrow> store \<Rightarrow> kern option \<Rightarrow> ndarray option \<Rightarrow> nat option \<Rightarrow> ndarray option
     \<Rightarrow> exn + d2K_model \<times> store" where
  "Kern_check_d2K_dXdX env c h kernel' dL_dK' X' X2' =
     (case Kern_check_d2K_dXdX_init env c h kernel' dL_dK' X' X2' of
        Inl e \<Rightarrow> Inl e
      | Inr (m, h) \<Rightarrow>
          (case d2K_parameters_changed h m of
             Inl e \<Rightarrow> Inl e
           | Inr m \<Rightarrow> Inr (m, h)))"

text \<open>
  The numeric differencer perturbs the free parameter of an adapter by writing into the
  array behind its \<open>X\<close>.
\<close>

definition perturb :: "store \<Rightarrow> d2K_model \<Rightarrow> ndarray \<Rightarrow> store" where
  "perturb h m x = h\<lparr>cells := (cells h)(X m := x)\<rparr>"

subsection \<open>The conformance driver\<close>

text \<open>The assignment \<open>A[:, j] = v\<close> of a scalar, with Python's negative indices.\<close>

definition set_column :: "ndarray \<Rightarrow> int \<Rightarrow> real \<Rightarrow> exn + ndarray" where
  "set_column A j v =
     (let q = int (shape A ! 1); j' = (if j < 0 then j + q else j)
      in if 0 \<le> j' \<and> j' < q
         then Inr (A\<lparr>elt := (\<lambda>idx. case idx of
                                    [i, k] \<Rightarrow> if k = nat j' then v else elt A idx
                                  | _ \<Rightarrow> elt A idx)\<rparr>)
         else Inl IndexError)"

text \<open>Lines 186 to 193: the location matrix generated when none is supplied.\<close>

definition default_input :: "gpy \<Rightarrow> nat \<Rightarrow> kern \<Rightarrow> nat \<Rightarrow> int option \<Rightarrow> exn + ndarray" where
  "default_input env c kern rows output_ind =
     (let x = randn env c [rows, input_dim kern] in
      case output_ind of
        None \<Rightarrow> Inr x
      | Some oi \<Rightarrow>
          (case randint env c (int (output_dim kern)) (int (shape x ! 0)) of
             Inl e \<Rightarrow> Inl e
           | Inr r \<Rightarrow> set_column x oi (of_int r)))"

text \<open>
  Checks 2 to 10 are nine blocks of the same form. A block is described by the adapter it
  builds, whether it passes \<open>X2\<close>, whether it stands in a \<open>try\<close> that catches
  \<open>NotImplementedError\<close>, whether \<open>fixed_X_dims\<close> is applied, whether the diagnostic
  re-run uses the test model of the first run (fixed columns included) or builds the
  adapter anew, and its three messages.
\<close>

record check_spec =
  cls :: adapter_class
  with_X2 :: bool
  guarded :: bool
  fix_X :: bool
  rerun_same :: bool
  start_msg :: string
  skip_msg :: string
  fail_msg :: string

definition checks :: "kern \<Rightarrow> check_spec list" where
  "checks kern =
     [\<lparr>cls = Cls_dK_dtheta, with_X2 = False, guarded = False, fix_X = False, rerun_same = False,
       start_msg = ''Checking gradients of K(X, X) wrt theta.'',
       skip_msg = [],
       fail_msg = ''Gradient of K(X, X) wrt theta failed for '' @ name kern
                    @ '' covariance function. Gradient values as follows:''\<rparr>,
      \<lparr>cls = Cls_dK_dtheta, with_X2 = True, guarded = True, fix_X = False, rerun_same = False,
       start_msg = ''Checking gradients of K(X, X2) wrt theta.'',
       skip_msg = ''update_gradients_full, with differing X and X2, not implemented for ''
                    @ name kern,
       fail_msg = ''Gradient of K(X, X) wrt theta failed for '' @ name kern
                    @ '' covariance function. Gradient values as follows:''\<rparr>,
      \<lparr>cls = Cls_dKdiag_dtheta, with_X2 = False, guarded = True, fix_X = False,
       rerun_same = False,
       start_msg = ''Checking gradients of Kdiag(X) wrt theta.'',
       skip_msg = ''update_gradients_diag not implemented for '' @ name kern,
       fail_msg = ''Gradient of Kdiag(X) wrt theta failed for '' @ name kern
                    @ '' covariance function. Gradient values as follows:''\<rparr>,
      \<lparr>cls = Cls_dK_dX, with_X2 = False, guarded = True, fix_X = True, rerun_same = True,
       start_msg = ''Checking gradients of K(X, X) wrt X.'',
       skip_msg = ''gradients_X not implemented for '' @ name kern,
       fail_msg = ''Gradient of K(X, X) wrt X failed for '' @ name kern
                    @ '' covariance function. Gradient values as follows:''\<rparr>,
      \<lparr>cls = Cls_dK_dX, with_X2 = True, guarded = True, fix_X = True, rerun_same = True,
       start_msg = ''Checking gradients of K(X, X2) wrt X.'',
       skip_msg = ''gradients_X not implemented for '' @ name kern,
       fail_msg = ''Gradient of K(X, X2) wrt X failed for '' @ name kern
                    @ '' covariance function. Gradient values as follows:''\<rparr>,
      \<lparr>cls = Cls_dKdiag_dX, with_X2 = False, guarded = True, fix_X = True, rerun_same = False,
       start_msg = ''Checking gradients of Kdiag(X) wrt X.'',
       skip_msg = ''gradients_X not implemented for '' @ name kern,
       fail_msg = ''Gradient of Kdiag(X) wrt X failed for '' @ name kern
                    @ '' covariance function. Gradient values as follows:''\<rparr>,
      \<lparr>cls = Cls_d2K_dXdX, with_X2 = True, guarded = True, fix_X = True, rerun_same = True,
       start_msg = ''Checking gradients of dK(X, X2) wrt X2 with full cov in dimensions'',
       skip_msg = ''gradients_X not implemented for '' @ name kern,
       fail_msg = ''Gradient of dK(X, X2) wrt X failed for '' @ name kern
                    @ '' covariance function. Gradient values as follows:''\<rparr>,
      \<lparr>cls = Cls_d2K_dXdX, with_X2 = False, guarded = True, fix_X = True, rerun_same = True,
       start_msg = ''Checking gradients of dK(X, X) wrt X with full cov in dimensions'',
       skip_msg = ''gradients_X not implemented for '' @ name kern,
       fail_msg = ''Gradient of dK(X, X) wrt X with full cov in dimensions failed for ''
                    @ name kern @ '' covariance function. Gradient values as follows:''\<rparr>,
      \<lparr>cls = Cls_d2Kdiag_dXdX, with_X2 = False, guarded = True, fix_X = True,
       rerun_same = True,
       start_msg = ''Checking gradients of dKdiag(X, X) wrt X with cov in dimensions'',
       skip_msg = ''gradients_X not implemented for '' @ name kern,
       fail_msg = ''Gradient of dKdiag(X, X) wrt X with cov in dimensions failed for ''
                    @ name kern @ '' covariance function. Gradient values as follows:''\<rparr>]"

text \<open>
  One block. \<open>None\<close> means that the driver goes on to the next block; \<open>Some r\<close> that it
  leaves with \<open>r\<close>: an exception that nothing catches, or, after a failed check, its
  message, the diagnostic re-run and \<open>assert result\<close>, which raises unless assertions are
  switched off, in which case \<open>return False\<close> is reached.
\<close>

definition first_run ::
  "gpy \<Rightarrow> kern \<Rightarrow> ndarray \<Rightarrow> ndarray \<Rightarrow> dims option \<Rightarrow> bool \<Rightarrow> check_spec \<Rightarrow> exn + bool" where
  "first_run env kern x x2 fixed_X_dims verbose c =
     checkgrad env (cls c) kern x (if with_X2 c then Some x2 else None)
       (if fix_X c then fixed_X_dims else None) verbose 0"

definition rerun ::
  "gpy \<Rightarrow> kern \<Rightarrow> ndarray \<Rightarrow> ndarray \<Rightarrow> dims option \<Rightarrow> check_spec \<Rightarrow> exn + bool" where
  "rerun env kern x x2 fixed_X_dims c =
     checkgrad env (cls c) kern x (if with_X2 c then Some x2 else None)
       (if rerun_same c \<and> fix_X c then fixed_X_dims else None) True 1"

definition run_check ::
  "gpy \<Rightarrow> kern \<Rightarrow> ndarray \<Rightarrow> ndarray \<Rightarrow> dims option \<Rightarrow> bool \<Rightarrow> check_spec
     \<Rightarrow> (exn + bool) option \<times> event list" where
  "run_check env kern x x2 fixed_X_dims verbose c =
     (let out0 = (if verbose then [Printed (start_msg c)] else [])
                   @ [Checkgrad (cls c) (with_X2 c) verbose];
          first = first_run env kern x x2 fixed_X_dims verbose c
      in case (if guarded c \<and> first = Inl NotImplementedError
               then (Inr True, if verbose then [Printed (skip_msg c)] else [])
               else (first, [])) of
           (Inl e, out1) \<Rightarrow> (Some (Inl e), out0 @ out1)
         | (Inr result, out1) \<Rightarrow>
             if result then
               (None, out0 @ out1 @ (if verbose then [Printed ''Check passed.''] else []))
             else
               (let out2 = out0 @ out1
                             @ [Printed (fail_msg c), Checkgrad (cls c) (with_X2 c) True]
                in case rerun env kern x x2 fixed_X_dims c of
                     Inl e \<Rightarrow> (Some (Inl e), out2)
                   | Inr _ \<Rightarrow>
                       (Some (if debug env then Inl AssertionError else Inr False), out2)))"

fun run_checks ::
  "gpy \<Rightarrow> kern \<Rightarrow> ndarray \<Rightarrow> ndarray \<Rightarrow> dims option \<Rightarrow> bool \<Rightarrow> check_spec list
     \<Rightarrow> (exn + bool) \<times> event list" where
  "run_checks env kern x x2 fixed_X_dims verbose [] = (Inr True, [])"
| "run_checks env kern x x2 fixed_X_dims verbose (c # cs) =
     (case run_check env kern x x2 fixed_X_dims verbose c of
        (Some r, out) \<Rightarrow> (r, out)
      | (None, out) \<Rightarrow>
          (case run_checks env kern x x2 fixed_X_dims verbose cs of
             (r, out') \<Rightarrow> (r, out @ out')))"

text \<open>Line 197: \<open>Kern_check_model(kern, X=X).is_positive_semi_definite()\<close>.\<close>

definition psd_step :: "gpy \<Rightarrow> kern \<Rightarrow> ndarray \<Rightarrow> (exn + bool) \<times> event list" where
  "psd_step env kern x =
     (let (a, h) = alloc empty_store x;
          (m, h) = Kern_check_model env 0 h (Some kern) None (Some a) None
      in is_positive_semi_definite env h m)"

definition check_kernel_gradient_functions ::
  "gpy \<Rightarrow> kern \<Rightarrow> ndarray option \<Rightarrow> ndarray option \<Rightarrow> int option \<Rightarrow> bool \<Rightarrow> dims option
     \<Rightarrow> (exn + bool) \<times> event list" where
  "check_kernel_gradient_functions env kern X' X2' output_ind verbose fixed_X_dims =
     (case (case X' of None \<Rightarrow> default_input env 0 kern 10 output_ind | Some x \<Rightarrow> Inr x) of
        Inl e \<Rightarrow> (Inl e, [])
      | Inr x \<Rightarrow>
          (case (case X2' of None \<Rightarrow> default_input env 1 kern 20 output_ind
                           | Some x2 \<Rightarrow> Inr x2) of
             Inl e \<Rightarrow> (Inl e, [])
           | Inr x2 \<Rightarrow>
               let out0 = (if verbose
                           then [Printed ''Checking covariance function is positive definite.'']
                           else [])
               in (case psd_step env kern x of
                     (Inl e, out1) \<Rightarrow> (Inl e, out0 @ out1)
                   | (Inr result, out1) \<Rightarrow>
                       if result then
                         (case run_checks env kern x x2 fixed_X_dims verbose (checks kern) of
                            (r, out2) \<Rightarrow>
                              (r, out0 @ out1
                                    @ (if verbose then [Printed ''Check passed.''] else [])
                                    @ out2))
                       else
                         ((if debug env then Inl AssertionError else Inr False),
                          out0 @ out1
                            @ [Printed (''Positive definite check failed for '' @ name kern
                                          @ '' covariance function.'')]))))"

text \<open>
  A block lets the driver go on when its first run returns true, or raises
  \<open>NotImplementedError\<close> inside a \<open>try\<close>.
\<close>

definition passes ::
  "gpy \<Rightarrow> kern \<Rightarrow> ndarray \<Rightarrow> ndarray \<Rightarrow> dims option \<Rightarrow> bool \<Rightarrow> check_spec \<Rightarrow> bool" where
  "passes env kern x x2 fixed_X_dims verbose c =
     (first_run env kern x x2 fixed_X_dims verbose c = Inr True
      \<or> (guarded c \<and> first_run env kern x x2 fixed_X_dims verbose c = Inl NotImplementedError))"

subsection \<open>The Psi-statistics cross-check\<close>











definition py_assert :: "gpy \<Rightarrow> bool \<Rightarrow> exn + unit" where
  "py_assert env b = (if debug env \<and> \<not> b then Inl AssertionError else Inr ())"











section \<open>Concrete inputs\<close>

text \<open>Small inputs on which the theorems below are evaluated.\<close>

definition ex_latent_env :: latent_env where
  "ex_latent_env =
     \<lparr>normal_src = (\<lambda>idx. case idx of [i, j] \<Rightarrow> if i = 0 then 1 else - 1 | _ \<Rightarrow> 0),
      uniform_src = (\<lambda>_. 0),
      mvn_src = (\<lambda>cov idx. case idx of [k, i] \<Rightarrow> if i = 0 then 1 else - 1 | _ \<Rightarrow> 0),
      PCA = (\<lambda>Y. \<lparr>fracs = of_list [3 / 4, 1 / 4],
                    project = (\<lambda>Y n. \<lparr>shape = [shape Y ! 0, n], elt = elt Y\<rparr>)\<rparr>)\<rparr>"

definition ex_Y :: ndarray where
  "ex_Y = of_rows [[1, 2], [3, 5]]"

text \<open>
  A kernel whose covariance matrix is diagonal with the entry \<open>v\<close>, with eigenvalues read
  off the diagonal, and an environment whose numeric differencer fails the adapters of
  the classes \<open>bad\<close> and raises \<open>NotImplementedError\<close> for those of \<open>skipped\<close>.
\<close>

definition ex_kern :: "real \<Rightarrow> kern" where
  "ex_kern v =
     \<lparr>input_dim = 2, output_dim = 3, name = ''k'',
      K = (\<lambda>x x2. Inr \<lparr>shape = [hd (shape x), hd (shape x)],
                        elt = (\<lambda>idx. case idx of [i, j] \<Rightarrow> if i = j then v else 0 | _ \<Rightarrow> 0)\<rparr>),
      gradients_X = (\<lambda>d x x2. Inr \<lparr>shape = shape x,
                                    elt = (\<lambda>idx. elt x idx
                                             - (case x2 of None \<Rightarrow> 0 | Some z \<Rightarrow> elt z idx))\<rparr>),
      gradients_X_diag = (\<lambda>d x. Inr x),
      gradients_XX = (\<lambda>d x x2. Inr \<lparr>shape = [hd (shape x),
                                              (case x2 of None \<Rightarrow> hd (shape x)
                                                        | Some z \<Rightarrow> hd (shape z)), 2, 2],
                                     elt = (\<lambda>idx. case idx of
                                              [i, j, k, l] \<Rightarrow> real (k + 2 * l + 1)
                                            | _ \<Rightarrow> 0)\<rparr>)\<rparr>"

definition ex_gpy :: "adapter_class set \<Rightarrow> adapter_class set \<Rightarrow> gpy" where
  "ex_gpy bad skipped =
     \<lparr>RBF = (\<lambda>n. ex_kern 1),
      randomize = (\<lambda>c k. k),
      randn_src = (\<lambda>c idx. 0),
      rand_src = (\<lambda>c idx. 1 / 2),
      randint_src = (\<lambda>c. 5),
      eig = (\<lambda>A. map (\<lambda>i. complex_of_real (elt A [i, i])) [0..<hd (shape A)]),
      Param_shares = True,
      Param_None = Inl ValueError,
      checkgrad = (\<lambda>a k x x2 f v n. if a \<in> skipped then Inl NotImplementedError
                                     else Inr (a \<notin> bad)),
      randomized = (\<lambda>i. of_list [1]),
      GradientChecker_checkgrad = (\<lambda>f df x0 v s. (Inr True, s)),
      debug = True\<rparr>"

definition ex_X :: ndarray where
  "ex_X = of_rows [[0, 1]]"

definition ex_X2 :: ndarray where
  "ex_X2 = of_rows [[1, 0], [2, 2]]"

definition ex_store :: store where
  "ex_store = snd (alloc empty_store ex_X)"




text \<open>
  An entropy source whose draws are neither centred nor of unit variance, with unequal
  column variances.
\<close>

definition ex_latent_env2 :: latent_env where
  "ex_latent_env2 =
     \<lparr>normal_src = (\<lambda>idx. case idx of
                        [i, j] \<Rightarrow> if j = 0 then (if i = 0 then 1 else 5)
                                  else (if i = 0 then 0 else 2)
                      | _ \<Rightarrow> 0),
      uniform_src = (\<lambda>i. if i = 0 then 1 / 4 else 3 / 4),
      mvn_src = (\<lambda>cov idx. case idx of
                       [k, i] \<Rightarrow> real (k + 1) * (if i = 0 then 1 else 3)
                     | _ \<Rightarrow> 0),
      PCA = (\<lambda>Y. \<lparr>fracs = of_list [3 / 4, 1 / 4],
                    project = (\<lambda>Y n. \<lparr>shape = [shape Y ! 0, n],
                                       elt = (\<lambda>idx. 2 * elt Y idx)\<rparr>)\<rparr>)\<rparr>"

section \<open>Properties of the latent initialiser\<close>

lemma upt2: "[0..<2] = [0, 1]"
  by (simp add: upt_rec)

lemma ex_Y_shape: "shape ex_Y = [2, 2]"
  by (simp add: ex_Y_def of_rows_def)

lemma random_normal_sel:
  "shape (random_normal env sh) = sh" "elt (random_normal env sh) = normal_src env"
  by (simp_all add: random_normal_def)

lemma indices_1: "indices [n] = map (\<lambda>i. [i]) [0..<n]"
  by (simp add: indices_def map_concat comp_def) 

lemma bshape_2_1: "bshape [n, q] [q] = Some [n, q]"
  by (simp add: bshape_def)

lemma bidx_1_2: "j < q \<Longrightarrow> bidx [q] [i, j] = [j]"
  by (auto simp add: bidx_def)

lemma latent_branch_shape:
  "latent_branch env init q Y = (Inr (B, v), w) \<Longrightarrow> \<exists>N. shape_at Y 0 = Inr N \<and> shape B = [N, q]"
  by (auto simp add: latent_branch_def Let_def random_normal_def set_leading_block_def
      split: sum.splits if_splits list.splits)

lemma centre_ok:
  assumes "shape A = [n, q]"
  shows "inplace (-) A (mean0 A) = Inr (A\<lparr>elt := (\<lambda>idx. elt A idx - elt (mean0 A) (bidx [q] idx))\<rparr>)"
  using assms by (simp add: inplace_def mean0_def bshape_2_1)

lemma scale_ok:
  assumes "shape A = [n, q]"
  shows "inplace (/) A (std0 A) = Inr (A\<lparr>elt := (\<lambda>idx. elt A idx / elt (std0 A) (bidx [q] idx))\<rparr>)"
  using assms by (simp add: inplace_def std0_def bshape_2_1)

lemma mean0_centred:
  assumes sh: "shape A = [n, q]" and j: "j < q" and n: "0 < n"
  shows "elt (mean0 (A\<lparr>elt := (\<lambda>idx. elt A idx - elt (mean0 A) (bidx [q] idx))\<rparr>)) [j] = 0"
proof -
  have "(\<Sum>k<n. elt A [k, j] - elt (mean0 A) [j]) = (\<Sum>k<n. elt A [k, j]) - real n * elt (mean0 A) [j]"
    by (simp add: sum_subtractf)
  also have "\<dots> = 0" using n sh by (simp add: mean0_def)
  finally show ?thesis using sh j by (simp add: mean0_def bidx_1_2)
qed

lemma var0_centred:
  assumes sh: "shape A = [n, q]" and j: "j < q" and n: "0 < n"
  shows "elt (var0 (A\<lparr>elt := (\<lambda>idx. elt A idx - elt (mean0 A) (bidx [q] idx))\<rparr>)) [j] = elt (var0 A) [j]"
proof -
  let ?C = "A\<lparr>elt := (\<lambda>idx. elt A idx - elt (mean0 A) (bidx [q] idx))\<rparr>"
  have m: "elt (mean0 ?C) [j] = 0" by (rule mean0_centred[OF sh j n])
  show ?thesis using sh j m by (simp add: var0_def bidx_1_2)
qed

lemma scaled_stats:
  assumes sh: "shape C = [n, q]" and j: "j < q" and n: "0 < n"
    and m: "elt (mean0 C) [j] = 0" and v: "0 < elt (var0 C) [j]"
  shows "elt (mean0 (C\<lparr>elt := (\<lambda>idx. elt C idx / elt (std0 C) (bidx [q] idx))\<rparr>)) [j] = 0"
    and "elt (std0 (C\<lparr>elt := (\<lambda>idx. elt C idx / elt (std0 C) (bidx [q] idx))\<rparr>)) [j] = 1"
proof -
  let ?s = "elt (std0 C) [j]"
  let ?S = "C\<lparr>elt := (\<lambda>idx. elt C idx / elt (std0 C) (bidx [q] idx))\<rparr>"
  have s: "?s = sqrt (elt (var0 C) [j])" by (simp add: std0_def)
  have spos: "0 < ?s" using v s by simp
  have s2: "?s\<^sup>2 = elt (var0 C) [j]" using v s by simp
  have sumz: "(\<Sum>k<n. elt C [k, j]) = 0" using m sh n by (simp add: mean0_def)
  have "(\<Sum>k<n. elt C [k, j] / ?s) = (\<Sum>k<n. elt C [k, j]) / ?s"
    by (simp add: sum_divide_distrib)
  then have ms: "elt (mean0 ?S) [j] = 0" using sh j sumz by (simp add: mean0_def bidx_1_2)
  show "elt (mean0 ?S) [j] = 0" by (rule ms)
  have vC: "elt (var0 C) [j] = (\<Sum>k<n. (elt C [k, j])\<^sup>2) / real n"
    using sh m by (simp add: var0_def)
  have "elt (var0 ?S) [j] = (\<Sum>k<n. (elt C [k, j] / ?s)\<^sup>2) / real n"
    using sh j ms by (simp add: var0_def bidx_1_2)
  also have "\<dots> = ((\<Sum>k<n. (elt C [k, j])\<^sup>2) / ?s\<^sup>2) / real n"
    by (simp add: power_divide sum_divide_distrib)
  also have "\<dots> = elt (var0 C) [j] / ?s\<^sup>2" using vC by simp
  also have "\<dots> = 1" using s2 v by simp
  finally have "elt (var0 ?S) [j] = 1" .
  then show "elt (std0 ?S) [j] = 1" by (simp add: std0_def)
qed

lemma max_all_sdiv:
  assumes sh: "shape v = [n]" and k: "k < n" and pos: "0 < elt v [k]" and m: "max_all v = Inr m"
  shows "0 < m" and "max_all (sdiv v m) = Inr 1"
proof -
  let ?I = "set (indices [n])"
  have ne: "indices [n] \<noteq> []" using k by (simp add: indices_1)
  have mm: "m = Max (elt v ` ?I)" using m sh ne by (simp add: max_all_def)
  have kin: "[k] \<in> ?I" using k by (simp add: indices_1)
  have "elt v [k] \<le> m" unfolding mm by (rule Max_ge) (use kin in auto)
  then show mpos: "0 < m" using pos by simp
  have fin: "finite (elt v ` ?I)" by simp
  have nee: "elt v ` ?I \<noteq> {}" using kin by auto
  have "Max ((\<lambda>x. x / m) ` (elt v ` ?I)) = Max (elt v ` ?I) / m"
    by (rule mono_Max_commute[symmetric]) (use mpos fin nee in \<open>auto simp add: mono_def divide_right_mono\<close>)
  then have "Max ((\<lambda>idx. elt v idx / m) ` ?I) = 1" using mm mpos by (simp add: image_image)
  then show "max_all (sdiv v m) = Inr 1" using sh ne by (simp add: max_all_def sdiv_def)
qed

lemma branch_var_pos:
  assumes br: "latent_branch env init q Y = (Inr (B, v), w)"
    and q: "0 < q"
    and pv: "\<forall>j<q. 0 < elt (var0 B) [j]"
    and pca: "init = ''PCA'' \<longrightarrow>
       (\<exists>L k. shape (fracs (PCA env Y)) = [L] \<and> k < min q L \<and> 0 < elt (fracs (PCA env Y)) [k])"
    and uni: "init = ''empirical_samples'' \<longrightarrow> (\<forall>i<q. 0 \<le> uniform_src env i \<and> uniform_src env i < 1)"
  shows "\<exists>n k. shape v = [n] \<and> k < n \<and> 0 < elt v [k]"
proof -
  obtain N where N: "shape_at Y 0 = Inr N" and shB: "shape B = [N, q]"
    using latent_branch_shape[OF br] by blast
  consider (p) "init = ''PCA''" | (e) "init = ''empirical_samples''"
    | (r) "init \<noteq> ''PCA''" "init \<noteq> ''empirical_samples''" by blast
  then show ?thesis
  proof cases
    case p
    then obtain L k where L: "shape (fracs (PCA env Y)) = [L]" and k: "k < min q L"
      and pos: "0 < elt (fracs (PCA env Y)) [k]" using pca by blast
    have "v = smul (1 / 10) (take0 q (fracs (PCA env Y)))"
      using br p N by (auto simp add: latent_branch_def Let_def split: sum.splits)
    then have "shape v = [min q L]" "elt v [k] = 1 / 10 * elt (fracs (PCA env Y)) [k]"
      using L by (simp_all add: smul_def take0_def)
    then show ?thesis using k pos by auto
  next
    case e
    have "v = random_uniform env (1 / 2) (3 / 2) q"
      using br e N by (auto simp add: latent_branch_def Let_def split: sum.splits)
    then have "shape v = [q]" "elt v [0] = 1 / 2 + uniform_src env 0"
      by (simp_all add: random_uniform_def)
    moreover have "0 \<le> uniform_src env 0" using uni e q by simp
    ultimately show ?thesis using q by (intro exI[of _ q] exI[of _ 0]) simp
  next
    case r
    have "v = var0 B"
      using br r N by (auto simp add: latent_branch_def Let_def split: sum.splits if_splits)
    then have "shape v = [q]" "elt v [0] = elt (var0 B) [0]" using shB by (simp_all add: var0_def)
    then show ?thesis using q pv by (intro exI[of _ q] exI[of _ 0]) simp
  qed
qed

lemma YYT_shape: "shape (diag_add (tdot Y) c) = [hd (shape Y), hd (shape Y)]"
  by (simp add: diag_add_def tdot_def)

lemma empirical_branch:
  assumes Y: "shape Y = [n, dY]"
  shows "\<exists>B msg. latent_branch env ''empirical_samples'' q Y
             = (Inr (B, random_uniform env (1 / 2) (3 / 2) q), [DeprecationWarning msg])
           \<and> shape B = [n, q]
           \<and> (\<forall>i j. elt B [i, j] =
                 (if i < n \<and> j < min q dY
                  then mvn_src env (diag_add (tdot Y) (1 / 1000000)) [j, i]
                  else normal_src env [i, j]))"
proof -
  let ?YYT = "diag_add (tdot Y) (1 / 1000000)"
  let ?EMP = "transpose2 (multivariate_normal env ?YYT (min q dY))"
  have sE: "shape ?EMP = [n, min q dY]"
    by (simp add: transpose2_def multivariate_normal_def YYT_shape Y)
  have eE: "elt ?EMP [i, j] = mvn_src env ?YYT [j, i]" for i j
    by (simp add: transpose2_def multivariate_normal_def)
  have blk: "set_leading_block (random_normal env [n, q]) ?EMP
      = Inr ((random_normal env [n, q])\<lparr>elt := (\<lambda>idx. case idx of
               [i, j] \<Rightarrow> if i < n \<and> j < min q dY then elt ?EMP [i, j]
                         else elt (random_normal env [n, q]) idx
             | _ \<Rightarrow> elt (random_normal env [n, q]) idx)\<rparr>)"
    unfolding set_leading_block_def by (simp add: sE random_normal_sel)
  show ?thesis
    using Y by (simp add: latent_branch_def shape_at_def Let_def blk eE random_normal_sel)
qed

lemma ex_env2_random:
  "latent_branch ex_latent_env2 ''random'' 2 ex_Y
     = (Inr (random_normal ex_latent_env2 [2, 2], var0 (random_normal ex_latent_env2 [2, 2])), [])"
  by (simp add: latent_branch_def shape_at_def ex_Y_shape Let_def)

lemma ex_env2_random_var:
  "elt (var0 (random_normal ex_latent_env2 [2, 2])) [0] = 4"
  "elt (var0 (random_normal ex_latent_env2 [2, 2])) [1] = 1"
  "shape (var0 (random_normal ex_latent_env2 [2, 2])) = [2]"
  by (simp_all add: var0_def mean0_def random_normal_def ex_latent_env2_def lessThan_Suc
      numeral_2_eq_2)

lemma ex_env2_PCA:
  "\<exists>B v. latent_branch ex_latent_env2 ''PCA'' 2 ex_Y = (Inr (B, v), [])
     \<and> shape B = [2, 2]
     \<and> elt B [0, 0] = 2 \<and> elt B [1, 0] = 6 \<and> elt B [0, 1] = 4 \<and> elt B [1, 1] = 10
     \<and> shape v = [2]
     \<and> elt v [0] = 3 / 40 \<and> elt v [1] = 1 / 40"
  by (simp add: latent_branch_def shape_at_def Let_def set_leading_block_def random_normal_def
      smul_def take0_def ex_latent_env2_def ex_Y_def of_rows_def of_list_def)

lemma max_all_2:
  "shape v = [2] \<Longrightarrow> max_all v = Inr (max (elt v [0]) (elt v [1]))"
  by (simp add: max_all_def indices_def upt2 max.commute)

text \<open>
  Claim C7. Whatever the value of \<open>init\<close>: when the latent dimension is positive, every
  column of the base matrix left by the branch has positive variance, and the variance
  vector of the branch has a positive entry (which the column variances give in the
  \<open>random\<close> and fallback branches, the unit draws of \<open>np.random.uniform\<close> in the
  \<open>empirical_samples\<close> branch, and a positive eigen-fraction among the first
  \<open>input_dim\<close> in the \<open>PCA\<close> branch), \<open>initialize_latent\<close> returns a matrix whose columns
  have mean 0 and standard deviation 1, together with the variance of the branch divided
  by its own maximum, whose largest entry is 1.
\<close>

theorem initialize_latent_normalised:
  assumes br: "latent_branch env init (nat d) Y = (Inr (B, v), w)"
    and q: "0 < d"
    and pv: "\<forall>j<nat d. 0 < elt (var0 B) [j]"
    and pca: "init = ''PCA'' \<longrightarrow>
       (\<exists>L k. shape (fracs (PCA env Y)) = [L] \<and> k < min (nat d) L
              \<and> 0 < elt (fracs (PCA env Y)) [k])"
    and uni: "init = ''empirical_samples'' \<longrightarrow>
       (\<forall>i<nat d. 0 \<le> uniform_src env i \<and> uniform_src env i < 1)"
  shows "\<exists>Xr var m. initialize_latent env init d Y = (Inr (Xr, var), w)
           \<and> shape Xr = shape B
           \<and> (\<forall>j<nat d. elt (mean0 Xr) [j] = 0 \<and> elt (std0 Xr) [j] = 1)
           \<and> max_all v = Inr m \<and> var = sdiv v m \<and> max_all var = Inr 1"
proof -
  let ?q = "nat d"
  have q': "0 < ?q" using q by simp
  obtain N where N: "shape_at Y 0 = Inr N" and shB: "shape B = [N, ?q]"
    using latent_branch_shape[OF br] by blast
  have Npos: "0 < N"
  proof (rule ccontr)
    assume "\<not> 0 < N"
    then have "elt (var0 B) [0] = 0" using shB by (simp add: var0_def)
    moreover have "0 < elt (var0 B) [0]" using pv q' by blast
    ultimately show False by simp
  qed
  let ?C = "B\<lparr>elt := (\<lambda>idx. elt B idx - elt (mean0 B) (bidx [?q] idx))\<rparr>"
  let ?S = "?C\<lparr>elt := (\<lambda>idx. elt ?C idx / elt (std0 ?C) (bidx [?q] idx))\<rparr>"
  have shC: "shape ?C = [N, ?q]" using shB by simp
  have c1: "inplace (-) B (mean0 B) = Inr ?C" by (rule centre_ok[OF shB])
  have c2: "inplace (/) ?C (std0 ?C) = Inr ?S" by (rule scale_ok[OF shC])
  obtain n k where shv: "shape v = [n]" and k: "k < n" and pos: "0 < elt v [k]"
    using branch_var_pos[OF br q' pv pca uni] by blast
  have ne: "indices (shape v) \<noteq> []" using shv k by (simp add: indices_1)
  define m where "m = Max (elt v ` set (indices (shape v)))"
  have mx: "max_all v = Inr m" using ne by (simp add: max_all_def m_def)
  have one: "max_all (sdiv v m) = Inr 1" by (rule max_all_sdiv(2)[OF shv k pos mx])
  have post: "latent_post (B, v) = Inr (?S, sdiv v m)"
    unfolding latent_post_def by (simp only: c1 c2 mx prod.case sum.case)
  have res: "initialize_latent env init d Y = (Inr (?S, sdiv v m), w)"
    using q br post by (simp add: initialize_latent_def)
  have stats: "\<forall>j<?q. elt (mean0 ?S) [j] = 0 \<and> elt (std0 ?S) [j] = 1"
  proof (intro allI impI)
    fix j assume j: "j < ?q"
    have m0: "elt (mean0 ?C) [j] = 0" by (rule mean0_centred[OF shB j Npos])
    have v0: "0 < elt (var0 ?C) [j]" using var0_centred[OF shB j Npos] pv j by simp
    show "elt (mean0 ?S) [j] = 0 \<and> elt (std0 ?S) [j] = 1"
      using scaled_stats[OF shC j Npos m0 v0] by blast
  qed
  have shS: "shape ?S = shape B" by simp
  show ?thesis using res shS stats mx one by blast
qed

text \<open>
  Claim C7 on two observations and two latent dimensions, with draws that are neither
  centred nor of unit variance, in the \<open>random\<close>, \<open>PCA\<close> and \<open>empirical_samples\<close> modes: the
  columns of the result have mean 0 and standard deviation 1, and the variance returned
  is (1, 1/4), (1, 1/3) and (3/5, 1).
\<close>

theorem initialize_latent_normalised_witness:
  "(\<exists>Xr var. initialize_latent ex_latent_env2 ''random'' 2 ex_Y = (Inr (Xr, var), [])
      \<and> elt (mean0 Xr) [0] = 0 \<and> elt (mean0 Xr) [1] = 0
      \<and> elt (std0 Xr) [0] = 1 \<and> elt (std0 Xr) [1] = 1
      \<and> elt var [0] = 1 \<and> elt var [1] = 1 / 4 \<and> max_all var = Inr 1)
   \<and> (\<exists>Xr var. initialize_latent ex_latent_env2 ''PCA'' 2 ex_Y = (Inr (Xr, var), [])
      \<and> elt (mean0 Xr) [0] = 0 \<and> elt (mean0 Xr) [1] = 0
      \<and> elt (std0 Xr) [0] = 1 \<and> elt (std0 Xr) [1] = 1
      \<and> elt var [0] = 1 \<and> elt var [1] = 1 / 3 \<and> max_all var = Inr 1)
   \<and> (\<exists>Xr var w. initialize_latent ex_latent_env2 ''empirical_samples'' 2 ex_Y
                     = (Inr (Xr, var), w)
      \<and> elt (mean0 Xr) [0] = 0 \<and> elt (mean0 Xr) [1] = 0
      \<and> elt (std0 Xr) [0] = 1 \<and> elt (std0 Xr) [1] = 1
      \<and> elt var [0] = 3 / 5 \<and> elt var [1] = 1 \<and> max_all var = Inr 1)"
proof (intro conjI)
  let ?E = ex_latent_env2
  have two: "(\<forall>j<nat 2. P j) \<longleftrightarrow> P 0 \<and> P 1" for P :: "nat \<Rightarrow> bool"
    by (auto simp add: less_Suc_eq numeral_2_eq_2)
  show "\<exists>Xr var. initialize_latent ?E ''random'' 2 ex_Y = (Inr (Xr, var), [])
      \<and> elt (mean0 Xr) [0] = 0 \<and> elt (mean0 Xr) [1] = 0
      \<and> elt (std0 Xr) [0] = 1 \<and> elt (std0 Xr) [1] = 1
      \<and> elt var [0] = 1 \<and> elt var [1] = 1 / 4 \<and> max_all var = Inr 1"
  proof -
    let ?B = "random_normal ?E [2, 2]"
    have br: "latent_branch ?E ''random'' (nat 2) ex_Y = (Inr (?B, var0 ?B), [])"
      using ex_env2_random by simp
    have pv: "\<forall>j<nat 2. 0 < elt (var0 ?B) [j]"
      unfolding two using ex_env2_random_var by simp
    have mx: "max_all (var0 ?B) = Inr 4"
      using ex_env2_random_var by (simp add: max_all_2)
    from initialize_latent_normalised[OF br _ pv] obtain Xr var m where
      r: "initialize_latent ?E ''random'' 2 ex_Y = (Inr (Xr, var), [])"
      and st: "\<forall>j<nat 2. elt (mean0 Xr) [j] = 0 \<and> elt (std0 Xr) [j] = 1"
      and m: "max_all (var0 ?B) = Inr m" and v: "var = sdiv (var0 ?B) m"
      and one: "max_all var = Inr 1"
      by auto
    have m4: "m = 4" using m mx by simp
    have "elt var [0] = 1" "elt var [1] = 1 / 4"
      using ex_env2_random_var by (simp_all add: v m4 sdiv_def)
    then show ?thesis using r st[unfolded two] one by blast
  qed
  show "\<exists>Xr var. initialize_latent ?E ''PCA'' 2 ex_Y = (Inr (Xr, var), [])
      \<and> elt (mean0 Xr) [0] = 0 \<and> elt (mean0 Xr) [1] = 0
      \<and> elt (std0 Xr) [0] = 1 \<and> elt (std0 Xr) [1] = 1
      \<and> elt var [0] = 1 \<and> elt var [1] = 1 / 3 \<and> max_all var = Inr 1"
  proof -
    have F: "shape (fracs (PCA ?E ex_Y)) = [2]"
      by (simp add: ex_latent_env2_def of_list_def)
    have f0: "elt (fracs (PCA ?E ex_Y)) [0] = 3 / 4"
      by (simp add: ex_latent_env2_def of_list_def)
    from ex_env2_PCA obtain B v where
      br0: "latent_branch ?E ''PCA'' 2 ex_Y = (Inr (B, v), [])"
      and sB: "shape B = [2, 2]"
      and b: "elt B [0, 0] = 2" "elt B [1, 0] = 6" "elt B [0, 1] = 4" "elt B [1, 1] = 10"
      and sv: "shape v = [2]"
      and v0: "elt v [0] = 3 / 40" and v1: "elt v [1] = 1 / 40"
      by blast
    have mB: "elt (mean0 B) [0] = 4" "elt (mean0 B) [1] = 7"
      using sB b by (simp_all add: mean0_def lessThan_Suc numeral_2_eq_2)
    have vB: "elt (var0 B) [0] = 4" "elt (var0 B) [1] = 9"
      using sB b mB by (simp_all add: var0_def lessThan_Suc numeral_2_eq_2)
    have br: "latent_branch ?E ''PCA'' (nat 2) ex_Y = (Inr (B, v), [])" using br0 by simp
    have pv: "\<forall>j<nat 2. 0 < elt (var0 B) [j]" unfolding two using vB by simp
    have pca: "''PCA'' = ''PCA'' \<longrightarrow>
       (\<exists>L k. shape (fracs (PCA ?E ex_Y)) = [L] \<and> k < min (nat 2) L
              \<and> 0 < elt (fracs (PCA ?E ex_Y)) [k])"
      using F f0 by (intro impI exI[of _ 2] exI[of _ 0]) simp
    have mx: "max_all v = Inr (3 / 40)" using sv v0 v1 by (simp add: max_all_2)
    from initialize_latent_normalised[OF br _ pv pca] obtain Xr var m where
      r: "initialize_latent ?E ''PCA'' 2 ex_Y = (Inr (Xr, var), [])"
      and st: "\<forall>j<nat 2. elt (mean0 Xr) [j] = 0 \<and> elt (std0 Xr) [j] = 1"
      and m: "max_all v = Inr m" and v: "var = sdiv v m"
      and one: "max_all var = Inr 1"
      by auto
    have m4: "m = 3 / 40" using m mx by simp
    have "elt var [0] = 1" "elt var [1] = 1 / 3"
      using v0 v1 by (simp_all add: v m4 sdiv_def)
    then show ?thesis using r st[unfolded two] one by blast
  qed
  show "\<exists>Xr var w. initialize_latent ?E ''empirical_samples'' 2 ex_Y = (Inr (Xr, var), w)
      \<and> elt (mean0 Xr) [0] = 0 \<and> elt (mean0 Xr) [1] = 0
      \<and> elt (std0 Xr) [0] = 1 \<and> elt (std0 Xr) [1] = 1
      \<and> elt var [0] = 3 / 5 \<and> elt var [1] = 1 \<and> max_all var = Inr 1"
  proof -
    let ?v = "random_uniform ?E (1 / 2) (3 / 2) 2"
    from empirical_branch[OF ex_Y_shape, of ?E 2] obtain B msg where
      br0: "latent_branch ?E ''empirical_samples'' 2 ex_Y = (Inr (B, ?v), [DeprecationWarning msg])"
      and sB: "shape B = [2, 2]"
      and eB: "\<forall>i j. elt B [i, j] =
                 (if i < 2 \<and> j < min 2 2
                  then mvn_src ?E (diag_add (tdot ex_Y) (1 / 1000000)) [j, i]
                  else normal_src ?E [i, j])"
      by blast
    have b: "elt B [0, 0] = 1" "elt B [1, 0] = 3" "elt B [0, 1] = 2" "elt B [1, 1] = 6"
      using eB by (simp_all add: ex_latent_env2_def)
    have mB: "elt (mean0 B) [0] = 2" "elt (mean0 B) [1] = 4"
      using sB b by (simp_all add: mean0_def lessThan_Suc numeral_2_eq_2)
    have vB: "elt (var0 B) [0] = 1" "elt (var0 B) [1] = 4"
      using sB b mB by (simp_all add: var0_def lessThan_Suc numeral_2_eq_2)
    have v0: "elt ?v [0] = 3 / 4" and v1: "elt ?v [1] = 5 / 4" and sv: "shape ?v = [2]"
      by (simp_all add: random_uniform_def ex_latent_env2_def)
    have br: "latent_branch ?E ''empirical_samples'' (nat 2) ex_Y
                = (Inr (B, ?v), [DeprecationWarning msg])" using br0 by simp
    have pv: "\<forall>j<nat 2. 0 < elt (var0 B) [j]" unfolding two using vB by simp
    have uni: "''empirical_samples'' = ''empirical_samples'' \<longrightarrow>
       (\<forall>i<nat 2. 0 \<le> uniform_src ?E i \<and> uniform_src ?E i < 1)"
      by (simp add: ex_latent_env2_def)
    have mx: "max_all ?v = Inr (5 / 4)" using sv v0 v1 by (simp add: max_all_2)
    from initialize_latent_normalised[OF br _ pv _ uni] obtain Xr var m where
      r: "initialize_latent ?E ''empirical_samples'' 2 ex_Y
            = (Inr (Xr, var), [DeprecationWarning msg])"
      and st: "\<forall>j<nat 2. elt (mean0 Xr) [j] = 0 \<and> elt (std0 Xr) [j] = 1"
      and m: "max_all ?v = Inr m" and v: "var = sdiv ?v m"
      and one: "max_all var = Inr 1"
      by auto
    have m4: "m = 5 / 4" using m mx by simp
    have "elt var [0] = 3 / 5" "elt var [1] = 1"
      using v0 v1 by (simp_all add: v m4 sdiv_def)
    then show ?thesis using r st[unfolded two] one by blast
  qed
qed

text \<open>
  Claim C8, as stated, fails: with three latent dimensions and a \<open>Y\<close> of two columns,
  whose PCA has two eigen-fractions, the variance vector has two entries, before the
  normalisation and as returned. It is not padded to length three.
\<close>

theorem latent_PCA_not_padded:
  "\<not> isl (fst (initialize_latent ex_latent_env ''PCA'' 3 ex_Y))
   \<and> shape (snd (projr (fst (initialize_latent ex_latent_env ''PCA'' 3 ex_Y)))) = [2]
   \<and> shape (snd (projr (fst (latent_branch ex_latent_env ''PCA'' 3 ex_Y)))) = [2]"
  by (simp add: initialize_latent_def latent_branch_def latent_post_def shape_at_def ex_Y_shape
     ex_latent_env_def of_list_def set_leading_block_def random_normal_def inplace_def mean0_def
     std0_def bshape_def max_all_def indices_def smul_def take0_def sdiv_def upt2 Let_def)

text \<open>
  Claim C8, amended. In the \<open>PCA\<close> branch, for a \<open>Y\<close> of \<open>n\<close> rows and \<open>dY\<close> columns
  whose projection has \<open>n\<close> rows and \<open>min q dY\<close> columns, the base matrix is the
  standard-normal draw with its leading \<open>n\<close> by \<open>min q dY\<close> block overwritten by the
  projection, and the variance before normalisation is 0.1 times the first
  \<open>min q L\<close> of the \<open>L\<close> eigen-fractions: truncated to \<open>q\<close> entries, never padded.
\<close>

theorem latent_PCA_branch:
  assumes Y: "shape Y = [n, dY]"
    and P: "shape (project (PCA env Y) Y (min q dY)) = [n, min q dY]"
    and F: "shape (fracs (PCA env Y)) = [L]"
  shows "\<exists>B v. latent_branch env ''PCA'' q Y = (Inr (B, v), [])
           \<and> shape B = [n, q]
           \<and> (\<forall>i j. elt B [i, j] =
                 (if i < n \<and> j < min q dY then elt (project (PCA env Y) Y (min q dY)) [i, j]
                  else normal_src env [i, j]))
           \<and> shape v = [min q L]
           \<and> (\<forall>k. elt v [k] = 1 / 10 * elt (fracs (PCA env Y)) [k])"
  using Y P F
  by (simp add: latent_branch_def shape_at_def Let_def set_leading_block_def random_normal_def
      smul_def take0_def)

text \<open>Claim C8, amended, on the concrete input of the counterexample.\<close>

theorem latent_PCA_branch_witness:
  "\<exists>B v. latent_branch ex_latent_env ''PCA'' 3 ex_Y = (Inr (B, v), [])
           \<and> shape B = [2, 3]
           \<and> elt B [1, 1] = 5 \<and> elt B [1, 2] = - 1
           \<and> shape v = [2]
           \<and> elt v [0] = 3 / 40"
proof -
  have P: "shape (project (PCA ex_latent_env ex_Y) ex_Y (min 3 2)) = [2, min 3 2]"
    by (simp add: ex_latent_env_def ex_Y_shape)
  have F: "shape (fracs (PCA ex_latent_env ex_Y)) = [2]"
    by (simp add: ex_latent_env_def of_list_def)
  have e1: "elt (project (PCA ex_latent_env ex_Y) ex_Y (min 3 2)) [1, 1] = 5"
    by (simp add: ex_latent_env_def ex_Y_def of_rows_def)
  have e2: "normal_src ex_latent_env [1, 2] = - 1"
    by (simp add: ex_latent_env_def)
  have e3: "elt (fracs (PCA ex_latent_env ex_Y)) [0] = 3 / 4"
    by (simp add: ex_latent_env_def of_list_def)
  from latent_PCA_branch[OF ex_Y_shape P F] obtain B v where
    br: "latent_branch ex_latent_env ''PCA'' 3 ex_Y = (Inr (B, v), [])"
    and sB: "shape B = [2, 3]"
    and eB: "\<forall>i j. elt B [i, j] =
                 (if i < 2 \<and> j < min 3 2
                  then elt (project (PCA ex_latent_env ex_Y) ex_Y (min 3 2)) [i, j]
                  else normal_src ex_latent_env [i, j])"
    and sv: "shape v = [min 3 2]"
    and ev: "\<forall>k. elt v [k] = 1 / 10 * elt (fracs (PCA ex_latent_env ex_Y)) [k]"
    by blast
  have "elt B [1, 1] = 5" using eB e1 by simp
  moreover have "elt B [1, 2] = - 1" using eB e2 by simp
  moreover have "elt v [0] = 1 / 10 * elt (fracs (PCA ex_latent_env ex_Y)) [0]"
    using ev by blast
  then have "elt v [0] = 3 / 40" unfolding e3 by simp
  ultimately show ?thesis using br sB sv \<open>elt v [0] = 3 / 40\<close> by simp
qed

text \<open>
  Claim C9, as stated, fails for \<open>empirical_samples\<close>: on a concrete input the branch
  returns, its variance entry is the uniform draw 1/2, and the column variance of its
  base matrix is 1.
\<close>

theorem latent_empirical_samples_variance:
  "\<not> isl (fst (latent_branch ex_latent_env ''empirical_samples'' 1 ex_Y))
   \<and> elt (snd (projr (fst (latent_branch ex_latent_env ''empirical_samples'' 1 ex_Y)))) [0]
       = 1 / 2
   \<and> elt (var0 (fst (projr (fst (latent_branch ex_latent_env ''empirical_samples'' 1 ex_Y)))))
       [0] = 1"
proof -
  obtain B msg where br: "latent_branch ex_latent_env ''empirical_samples'' 1 ex_Y
             = (Inr (B, random_uniform ex_latent_env (1 / 2) (3 / 2) 1),
                [DeprecationWarning msg])"
    and sB: "shape B = [2, 1]"
    and eB: "\<forall>i j. elt B [i, j] =
                 (if i < 2 \<and> j < min 1 2
                  then mvn_src ex_latent_env (diag_add (tdot ex_Y) (1 / 1000000)) [j, i]
                  else normal_src ex_latent_env [i, j])"
    using empirical_branch[OF ex_Y_shape, of ex_latent_env 1] by blast
  have b0: "elt B [0, 0] = 1" and b1: "elt B [1, 0] = - 1"
    using eB by (simp_all add: ex_latent_env_def)
  have m: "elt (mean0 B) [0] = 0"
    using sB b0 b1 by (simp add: mean0_def lessThan_Suc numeral_2_eq_2)
  have v: "elt (var0 B) [0] = 1"
    using sB b0 b1 m by (simp add: var0_def lessThan_Suc numeral_2_eq_2)
  have u: "elt (random_uniform ex_latent_env (1 / 2) (3 / 2) 1) [0] = 1 / 2"
    by (simp add: random_uniform_def ex_latent_env_def)
  show ?thesis using br v u by simp
qed

text \<open>
  Claim C9, amended. For a two-dimensional \<open>Y\<close>: every value of \<open>init\<close> other than
  \<open>PCA\<close>, \<open>random\<close> and \<open>empirical_samples\<close> emits one deprecation warning and follows the
  \<open>random\<close> policy, its variance before normalisation being the column-wise variance of
  the base matrix. \<open>empirical_samples\<close> emits one deprecation warning as well, but its
  variance before normalisation is a vector of \<open>q\<close> uniform draws, each in \<open>[0.5, 1.5)\<close>
  when the unit draw behind it is in \<open>[0, 1)\<close>.
\<close>

theorem latent_fallback_branches:
  assumes Y: "shape Y = [n, dY]"
  shows "(init \<noteq> ''PCA'' \<and> init \<noteq> ''random'' \<and> init \<noteq> ''empirical_samples'' \<longrightarrow>
           (\<exists>msg. latent_branch env init q Y
                     = (Inr (random_normal env [n, q], var0 (random_normal env [n, q])),
                        [DeprecationWarning msg]))
           \<and> fst (latent_branch env init q Y) = fst (latent_branch env ''random'' q Y))
       \<and> (\<exists>B msg. latent_branch env ''empirical_samples'' q Y
                     = (Inr (B, random_uniform env (1 / 2) (3 / 2) q), [DeprecationWarning msg]))
       \<and> (\<forall>i. 0 \<le> uniform_src env i \<and> uniform_src env i < 1 \<longrightarrow>
             1 / 2 \<le> elt (random_uniform env (1 / 2) (3 / 2) q) [i]
             \<and> elt (random_uniform env (1 / 2) (3 / 2) q) [i] < 3 / 2)"
proof (intro conjI impI allI)
  assume "init \<noteq> ''PCA'' \<and> init \<noteq> ''random'' \<and> init \<noteq> ''empirical_samples''"
  then show "\<exists>msg. latent_branch env init q Y
                     = (Inr (random_normal env [n, q], var0 (random_normal env [n, q])),
                        [DeprecationWarning msg])"
    using Y by (auto simp add: latent_branch_def shape_at_def Let_def)
next
  assume "init \<noteq> ''PCA'' \<and> init \<noteq> ''random'' \<and> init \<noteq> ''empirical_samples''"
  then show "fst (latent_branch env init q Y) = fst (latent_branch env ''random'' q Y)"
    using Y by (auto simp add: latent_branch_def shape_at_def Let_def)
next
  show "\<exists>B msg. latent_branch env ''empirical_samples'' q Y
                     = (Inr (B, random_uniform env (1 / 2) (3 / 2) q), [DeprecationWarning msg])"
    using empirical_branch[OF Y, of env q] by blast
next
  fix i assume "0 \<le> uniform_src env i \<and> uniform_src env i < 1"
  then show "1 / 2 \<le> elt (random_uniform env (1 / 2) (3 / 2) q) [i]"
    by (simp add: random_uniform_def)
next
  fix i assume "0 \<le> uniform_src env i \<and> uniform_src env i < 1"
  then show "elt (random_uniform env (1 / 2) (3 / 2) q) [i] < 3 / 2"
    by (simp add: random_uniform_def)
qed

text \<open>Claim C9, amended, on a concrete input with the unknown mode \<open>foo\<close>.\<close>

theorem latent_fallback_branches_witness:
  "(\<exists>msg. latent_branch ex_latent_env ''foo'' 1 ex_Y
            = (Inr (random_normal ex_latent_env [2, 1], var0 (random_normal ex_latent_env [2, 1])),
               [DeprecationWarning msg]))
   \<and> (\<exists>B msg. latent_branch ex_latent_env ''empirical_samples'' 1 ex_Y
                = (Inr (B, random_uniform ex_latent_env (1 / 2) (3 / 2) 1),
                   [DeprecationWarning msg]))
   \<and> 1 / 2 \<le> elt (random_uniform ex_latent_env (1 / 2) (3 / 2) 1) [0]
   \<and> elt (random_uniform ex_latent_env (1 / 2) (3 / 2) 1) [0] < 3 / 2"
proof -
  have u: "0 \<le> uniform_src ex_latent_env 0 \<and> uniform_src ex_latent_env 0 < 1"
    by (simp add: ex_latent_env_def)
  have ne: "''foo'' \<noteq> ''PCA'' \<and> ''foo'' \<noteq> ''random'' \<and> ''foo'' \<noteq> ''empirical_samples''"
    by simp
  show ?thesis
    using latent_fallback_branches[OF ex_Y_shape, of "''foo''" ex_latent_env 1] u ne by blast
qed

section \<open>Properties of the kernel gradient checker\<close>

lemma ex_store_0: "cells ex_store 0 = ex_X" "next_free ex_store = 1"
  by (simp_all add: ex_store_def alloc_def empty_store_def)

lemma ex_X_shape: "shape ex_X = [1, 2]"
  by (simp add: ex_X_def of_rows_def)

lemma randn_sel: "shape (randn env c sh) = sh" "elt (randn env c sh) = randn_src env c"
  by (simp_all add: randn_def)

lemma Kern_check_model_sel:
  "X2 (fst (Kern_check_model env c h k d x x2)) = x2"
  "d = None \<Longrightarrow> dL_dK (fst (Kern_check_model env c h k d (Some a) x2))
       = rand env c [shape (cells h a) ! 0, (case x2 of None \<Rightarrow> shape (cells h a) ! 0 | Some z \<Rightarrow> shape z ! 0)]"
  "d = None \<Longrightarrow> dL_dK (fst (Kern_check_model env c h k d None x2))
       = rand env c [20, (case x2 of None \<Rightarrow> 20 | Some z \<Rightarrow> shape z ! 0)]"
  "snd (Kern_check_model env c h k d (Some a) x2) = h"
  by (simp_all add: Kern_check_model_def Let_def alloc_def randn_def split: prod.splits option.splits)

text \<open>
  Claim C2, as stated, fails at the boundary: for a covariance matrix whose only
  eigenvalue is exactly \<open>-1e-10\<close>, \<open>is_positive_semi_definite\<close> returns false, the code
  comparing with \<open>\<le>\<close>.
\<close>

theorem psd_boundary_rejected:
  "fst (is_positive_semi_definite (ex_gpy {} {}) ex_store
          \<lparr>kernel = ex_kern (- (1 / 10000000000)), X = 0, X2 = None, dL_dK = zeros [1, 1]\<rparr>)
     = Inr False"
  by (simp add: is_positive_semi_definite_def Let_def ex_gpy_def ex_kern_def ex_store_0
      ex_X_shape)

text \<open>
  Claim C2, amended. When \<open>K(X)\<close> is computed, \<open>is_positive_semi_definite\<close> returns false
  if and only if some eigenvalue of \<open>K(X)\<close> has real part less than or equal to
  \<open>-1e-10\<close>, and true if and only if every eigenvalue has real part strictly greater than
  \<open>-1e-10\<close>.
\<close>

theorem is_positive_semi_definite_iff:
  assumes "K (kernel m) (cells h (X m)) None = Inr Kxx"
  shows "(fst (is_positive_semi_definite env h m) = Inr False
            \<longleftrightarrow> (\<exists>z\<in>set (eig env Kxx). Re z \<le> - (1 / 10000000000)))
       \<and> (fst (is_positive_semi_definite env h m) = Inr True
            \<longleftrightarrow> (\<forall>z\<in>set (eig env Kxx). - (1 / 10000000000) < Re z))"
proof -
  have "fst (is_positive_semi_definite env h m)
          = Inr (\<not> (\<exists>z\<in>set (eig env Kxx). Re z \<le> - (1 / 10000000000)))"
    using assms by (simp add: is_positive_semi_definite_def Let_def list_ex_iff)
  then show ?thesis by (auto simp add: not_less)
qed

text \<open>Claim C2, amended, on a covariance matrix with eigenvalue 1 and on one with eigenvalue -1.\<close>

theorem is_positive_semi_definite_iff_witness:
  "fst (is_positive_semi_definite (ex_gpy {} {})  ex_store
          \<lparr>kernel = ex_kern 1, X = 0, X2 = None, dL_dK = zeros [1, 1]\<rparr>) = Inr True
   \<and> fst (is_positive_semi_definite (ex_gpy {} {})  ex_store
          \<lparr>kernel = ex_kern (- 1), X = 0, X2 = None, dL_dK = zeros [1, 1]\<rparr>) = Inr False"
proof -
  let ?m = "\<lambda>v. \<lparr>kernel = ex_kern v, X = 0, X2 = None, dL_dK = zeros [1, 1]\<rparr>"
  let ?K = "\<lambda>v. \<lparr>shape = [1, 1],
                   elt = (\<lambda>idx. case idx of [i, j] \<Rightarrow> if i = j then v else (0::real) | _ \<Rightarrow> 0)\<rparr>"
  have k: "K (kernel (?m v)) (cells ex_store (X (?m v))) None = Inr (?K v)" for v
    by (simp add: ex_kern_def ex_store_def alloc_def empty_store_def ex_X_def of_rows_def)
  have e: "eig (ex_gpy {} {}) (?K v) = [complex_of_real v]" for v
    by (simp add: ex_gpy_def)
  have "fst (is_positive_semi_definite (ex_gpy {} {}) ex_store (?m 1)) = Inr True
          \<longleftrightarrow> (\<forall>z\<in>set (eig (ex_gpy {} {}) (?K 1)). - (1 / 10000000000) < Re z)"
    using is_positive_semi_definite_iff[OF k[of 1], of "ex_gpy {} {}"] by blast
  then have a: "fst (is_positive_semi_definite (ex_gpy {} {}) ex_store (?m 1)) = Inr True"
    unfolding e by simp
  have "fst (is_positive_semi_definite (ex_gpy {} {}) ex_store (?m (- 1))) = Inr False
          \<longleftrightarrow> (\<exists>z\<in>set (eig (ex_gpy {} {}) (?K (- 1))). Re z \<le> - (1 / 10000000000))"
    using is_positive_semi_definite_iff[OF k[of "- 1"], of "ex_gpy {} {}"] by blast
  then have b: "fst (is_positive_semi_definite (ex_gpy {} {}) ex_store (?m (- 1))) = Inr False"
    unfolding e by simp
  show ?thesis using a b by blast
qed

text \<open>
  Claim C5. The code does not do what the claim says: when \<open>output_ind\<close> is given, the
  generated matrix has the claimed shape, but column \<open>output_ind\<close> holds one single
  integer \<open>r\<close> with \<open>output_dim \<le> r < rows\<close>, the draw of
  \<open>np.random.randint(kern.output_dim, X.shape[0])\<close>, so that no entry is an output code
  of \<open>[0, output_dim)\<close>.
\<close>

theorem default_input_indicator_codes:
  assumes "default_input env c kern rows (Some oi) = Inr x"
  shows "shape x = [rows, input_dim kern]
       \<and> (\<exists>r j. int (output_dim kern) \<le> r \<and> r < int rows \<and> j < input_dim kern
                \<and> int j = (if oi < 0 then oi + int (input_dim kern) else oi)
                \<and> (\<forall>i. elt x [i, j] = of_int r))"
proof -
  let ?q = "int (input_dim kern)"
  let ?j = "if oi < 0 then oi + ?q else oi"
  from assms obtain r where r: "randint env c (int (output_dim kern)) (int rows) = Inr r"
    and s: "set_column (randn env c [rows, input_dim kern]) oi (of_int r) = Inr x"
    by (auto simp add: default_input_def Let_def randn_sel split: sum.splits)
  have rng: "int (output_dim kern) \<le> r \<and> r < int rows"
  proof -
    let ?w = "int rows - int (output_dim kern)"
    have w: "0 < ?w" and rr: "r = int (output_dim kern) + int (randint_src env c) mod ?w"
      using r by (auto simp add: randint_def split: if_splits)
    have "0 \<le> int (randint_src env c) mod ?w" "int (randint_src env c) mod ?w < ?w"
      using w by simp_all
    then show ?thesis using rr by linarith
  qed
  have j: "0 \<le> ?j \<and> ?j < ?q"
    using s by (auto simp add: set_column_def Let_def randn_sel split: if_splits)
  have x: "x = (randn env c [rows, input_dim kern])\<lparr>elt := (\<lambda>idx. case idx of
                                    [i, k] \<Rightarrow> if k = nat ?j then of_int r
                                              else elt (randn env c [rows, input_dim kern]) idx
                                  | _ \<Rightarrow> elt (randn env c [rows, input_dim kern]) idx)\<rparr>"
    using s j by (auto simp add: set_column_def Let_def randn_sel split: if_splits)
  have "shape x = [rows, input_dim kern]" by (simp add: x randn_sel)
  moreover have "\<forall>i. elt x [i, nat ?j] = of_int r" by (simp add: x)
  moreover have "nat ?j < input_dim kern" "int (nat ?j) = ?j" using j by auto
  ultimately show ?thesis using rng by blast
qed

text \<open>Claim C5 at the failing input: two input columns, three outputs, \<open>output_ind = 1\<close>.\<close>

theorem default_input_indicator_codes_witness:
  "\<exists>x r. default_input (ex_gpy {} {}) 0 (ex_kern 1) 10 (Some 1) = Inr x
      \<and> shape x = [10, 2] \<and> 3 \<le> r \<and> r < 10 \<and> elt x [0, 1] = of_int r
      \<and> elt x [9, 1] = of_int r"
proof -
  have "\<exists>x. default_input (ex_gpy {} {}) 0 (ex_kern 1) 10 (Some 1) = Inr x"
    by (simp add: default_input_def Let_def randint_def set_column_def ex_gpy_def ex_kern_def
        randn_def)
  then obtain x where d: "default_input (ex_gpy {} {}) 0 (ex_kern 1) 10 (Some 1) = Inr x" ..
  have k: "input_dim (ex_kern 1) = 2" "output_dim (ex_kern 1) = 3"
    by (simp_all add: ex_kern_def)
  from default_input_indicator_codes[OF d] obtain r j where
    "shape x = [10, 2]" "3 \<le> r" "r < 10" "int j = 1" "\<forall>i. elt x [i, j] = of_int r"
    unfolding k by auto
  moreover then have "j = 1" by simp
  ultimately show ?thesis using d by blast
qed

lemma bshape_same2: "bshape [n, q] [n, q] = Some [n, q]"
  by (simp add: bshape_def)

lemma bidx_same2: "i < n \<Longrightarrow> l < q \<Longrightarrow> bidx [n, q] [i, l] = [i, l]"
  by (auto simp add: bidx_def)

lemma sum_axis_1_4: 
  "shape G = [n0, n1, n2, n3] \<Longrightarrow>
     sum_axis 1 G = Inr \<lparr>shape = [n0, n2, n3], elt = (\<lambda>idx. \<Sum>k<n1. elt G (ins 1 k idx))\<rparr>"
  by (simp add: sum_axis_def)

lemma sum_axis_0_4: 
  "shape G = [n0, n1, n2, n3] \<Longrightarrow>
     sum_axis 0 G = Inr \<lparr>shape = [n1, n2, n3], elt = (\<lambda>idx. \<Sum>k<n0. elt G (ins 0 k idx))\<rparr>"
  by (simp add: sum_axis_def)

lemma sum_axis_1_3: 
  "shape G = [n0, n1, n2] \<Longrightarrow>
     sum_axis 1 G = Inr \<lparr>shape = [n0, n2], elt = (\<lambda>idx. \<Sum>k<n1. elt G (ins 1 k idx))\<rparr>"
  by (simp add: sum_axis_def)

lemma ins_simps:
  "ins (Suc 0) k [i, l] = [i, k, l]" "ins (Suc 0) k [i, j, l] = [i, k, j, l]"
  "ins 0 k [i, j, l] = [k, i, j, l]"
  by (simp_all add: ins_def)

lemma dK_dX_init_sel:
  assumes r: "Kern_check_dK_dX_init env c h k d x x2 = Inr (m, h')"
  shows "X2 m = x2"
    and "kernel m = randomize env c (case k of None \<Rightarrow> RBF env 1 | Some k' \<Rightarrow> k')"
    and "dL_dK m = dL_dK (fst (Kern_check_model env c h k d x x2))"
    and "x = Some a \<Longrightarrow> cells h' (X m) = cells h a"
    and "X_gradient m = zeros (shape (cells h' (X m)))"
  using r
  by (auto simp add: Kern_check_dK_dX_init_def Kern_check_model_def Let_def Param_def copy_def
      alloc_def link_parameter_def split: prod.splits option.splits sum.splits if_splits)

lemma dKdiag_changed_sel:
  assumes r: "dKdiag_dX_parameters_changed h m = Inr m'"
  shows "X2 m' = X2 m" "dL_dK m' = dL_dK m" "X m' = X m" "kernel m' = kernel m"
  using r by (auto simp add: dKdiag_dX_parameters_changed_def split: sum.splits)

text \<open>
  Claim C10. Whatever \<open>X2\<close> is passed to \<open>Kern_check_dKdiag_dX\<close>, the construction is the
  one with \<open>X2 = None\<close>, and in every adapter that is constructed the stored \<open>X2\<close> is
  \<open>None\<close>, a default \<open>dL_dK\<close> is square with as many rows as the location matrix (the
  supplied \<open>X\<close>, or the default of 20 rows), and the stored \<open>X\<close> holds the supplied matrix.
\<close>

theorem Kern_check_dKdiag_dX_ignores_X2:
  "Kern_check_dKdiag_dX env c h k d x x2 = Kern_check_dKdiag_dX env c h k d x None
   \<and> (\<forall>m h'. Kern_check_dKdiag_dX env c h k d x x2 = Inr (m, h') \<longrightarrow>
         X2 m = None
         \<and> (d = None \<longrightarrow>
              shape (dL_dK m) = [(case x of None \<Rightarrow> 20 | Some a \<Rightarrow> shape (cells h a) ! 0),
                                 (case x of None \<Rightarrow> 20 | Some a \<Rightarrow> shape (cells h a) ! 0)])
         \<and> (\<forall>a. x = Some a \<longrightarrow> cells h' (X m) = cells h a))"
proof (intro conjI allI impI)
  show "Kern_check_dKdiag_dX env c h k d x x2 = Kern_check_dKdiag_dX env c h k d x None"
    by (simp add: Kern_check_dKdiag_dX_def)
next
  fix m h' assume r: "Kern_check_dKdiag_dX env c h k d x x2 = Inr (m, h')"
  from r obtain m0 where
    i: "Kern_check_dK_dX_init env c h k d x None = Inr (m0, h')"
    and p: "dKdiag_dX_parameters_changed h' m0 = Inr m"
    by (auto simp add: Kern_check_dKdiag_dX_def split: sum.splits)
  note s = dK_dX_init_sel[OF i] and t = dKdiag_changed_sel[OF p]
  show "X2 m = None" using s(1) t(1) by simp
  {
    assume d: "d = None"
    show "shape (dL_dK m) = [(case x of None \<Rightarrow> 20 | Some a \<Rightarrow> shape (cells h a) ! 0),
                                 (case x of None \<Rightarrow> 20 | Some a \<Rightarrow> shape (cells h a) ! 0)]"
    proof (cases x)
      case None
      then show ?thesis
        using Kern_check_model_sel(3)[OF d, of env c h k None] s(3) t(2) by (simp add: rand_def)
    next
      case (Some a)
      then show ?thesis
        using Kern_check_model_sel(2)[OF d, of env c h k a None] s(3) t(2) by (simp add: rand_def)
    qed
  }
  {
    fix a assume a: "x = Some a"
    show "cells h' (X m) = cells h a" using s(4)[OF a] t(3) by simp
  }
qed

text \<open>
  Claim C10 on a concrete call that passes a two-row \<open>X2\<close> with a one-row \<open>X\<close>: the
  adapter is constructed, and its \<open>dL_dK\<close> is 1-by-1.
\<close>

theorem Kern_check_dKdiag_dX_ignores_X2_witness:
  "\<exists>m h'. Kern_check_dKdiag_dX (ex_gpy {} {}) 0 ex_store (Some (ex_kern 1)) None (Some 0) (Some ex_X2)
             = Inr (m, h')
     \<and> X2 m = None \<and> shape (dL_dK m) = [1, 1] \<and> cells h' (X m) = ex_X"
proof -
  note t = Kern_check_dKdiag_dX_ignores_X2[of "ex_gpy {} {}" 0 ex_store "Some (ex_kern 1)" None
      "Some 0" "Some ex_X2"]
  have "\<exists>m h'. Kern_check_dKdiag_dX (ex_gpy {} {}) 0 ex_store (Some (ex_kern 1)) None (Some 0)
                  (Some ex_X2) = Inr (m, h')"
    by (simp add: Kern_check_dKdiag_dX_def Kern_check_dK_dX_init_def Kern_check_model_def Let_def
        Param_def link_parameter_def dKdiag_dX_parameters_changed_def diagonal_def rand_def
        assign_all_def zeros_def bshape_same2 ex_gpy_def ex_kern_def ex_store_0 ex_X_shape)
  then obtain m h' where
    r: "Kern_check_dKdiag_dX (ex_gpy {} {}) 0 ex_store (Some (ex_kern 1)) None (Some 0) (Some ex_X2)
             = Inr (m, h')"
    by blast
  from t r have "X2 m = None"
    and "shape (dL_dK m) = [shape (cells ex_store 0) ! 0, shape (cells ex_store 0) ! 0]"
    and "cells h' (X m) = cells ex_store 0"
    by auto
  then show ?thesis using r by (simp add: ex_store_0 ex_X_shape)
qed

lemma d2K_grads_absent:
  assumes G: "gradients_XX (kernel m) (dL_dK m) (cells h (X m)) None = Inr G"
    and sG: "shape G = [n0, n1, n2, q]"
    and sg: "shape (X_gradient m) = [n0, q]"
    and x2: "X2 m = None"
  shows "\<exists>m'. d2K_parameters_changed h m = Inr m'
           \<and> (\<forall>i<n0. \<forall>l<q. elt (X_gradient m') [i, l] = - (\<Sum>j<n1. \<Sum>k<n2. elt G [i, j, k, l]))"
proof -
  let ?G1 = "\<lparr>shape = [n0, n2, q], elt = (\<lambda>idx. \<Sum>k<n1. elt G (ins 1 k idx))\<rparr>"
  let ?G2 = "\<lparr>shape = [n0, q], elt = (\<lambda>idx. \<Sum>k<n2. elt ?G1 (ins 1 k idx))\<rparr>"
  have s1: "sum_axis 1 G = Inr ?G1" by (rule sum_axis_1_4[OF sG])
  have s2: "sum_axis 1 ?G1 = Inr ?G2" by (rule sum_axis_1_3) simp
  have as: "assign_all (shape (X_gradient m)) (neg ?G2)
      = Inr \<lparr>shape = [n0, q], elt = (\<lambda>idx. elt (neg ?G2) (bidx [n0, q] idx))\<rparr>"
    by (simp add: assign_all_def sg neg_def bshape_same2)
  have r: "d2K_parameters_changed h m
      = Inr (m\<lparr>X_gradient := \<lparr>shape = [n0, q], elt = (\<lambda>idx. elt (neg ?G2) (bidx [n0, q] idx))\<rparr>\<rparr>)"
    unfolding d2K_parameters_changed_def by (simp only: x2 G s1 s2 as option.case sum.case map_sum.simps id_apply)
  have e: "elt (neg ?G2) (bidx [n0, q] [i, l]) = - (\<Sum>j<n1. \<Sum>k<n2. elt G [i, j, k, l])"
    if "i < n0" "l < q" for i l
  proof -
    have "(\<Sum>k<n2. \<Sum>j<n1. elt G [i, j, k, l]) = (\<Sum>j<n1. \<Sum>k<n2. elt G [i, j, k, l])"
      by (rule sum.swap)
    then show ?thesis using that by (simp add: bidx_same2 neg_def ins_simps)
  qed
  show ?thesis using r e by simp
qed

lemma d2K_grads_present:
  assumes G: "gradients_XX (kernel m) (transpose2 (dL_dK m)) z (Some (cells h (X m))) = Inr G"
    and sG: "shape G = [n0, n1, n2, q]"
    and sg: "shape (X_gradient m) = [n1, q]"
    and x2: "X2 m = Some z"
  shows "\<exists>m'. d2K_parameters_changed h m = Inr m'
           \<and> (\<forall>i<n1. \<forall>l<q. elt (X_gradient m') [i, l] = - (\<Sum>j<n0. \<Sum>k<n2. elt G [j, i, k, l]))"
proof -
  let ?G1 = "\<lparr>shape = [n1, n2, q], elt = (\<lambda>idx. \<Sum>k<n0. elt G (ins 0 k idx))\<rparr>"
  let ?G2 = "\<lparr>shape = [n1, q], elt = (\<lambda>idx. \<Sum>k<n2. elt ?G1 (ins 1 k idx))\<rparr>"
  have s1: "sum_axis 0 G = Inr ?G1" by (rule sum_axis_0_4[OF sG])
  have s2: "sum_axis 1 ?G1 = Inr ?G2" by (rule sum_axis_1_3) simp
  have as: "assign_all (shape (X_gradient m)) (neg ?G2)
      = Inr \<lparr>shape = [n1, q], elt = (\<lambda>idx. elt (neg ?G2) (bidx [n1, q] idx))\<rparr>"
    by (simp add: assign_all_def sg neg_def bshape_same2)
  have r: "d2K_parameters_changed h m
      = Inr (m\<lparr>X_gradient := \<lparr>shape = [n1, q], elt = (\<lambda>idx. elt (neg ?G2) (bidx [n1, q] idx))\<rparr>\<rparr>)"
    unfolding d2K_parameters_changed_def by (simp only: x2 G s1 s2 as option.case sum.case map_sum.simps id_apply)
  have e: "elt (neg ?G2) (bidx [n1, q] [i, l]) = - (\<Sum>j<n0. \<Sum>k<n2. elt G [j, i, k, l])"
    if "i < n1" "l < q" for i l
  proof -
    have "(\<Sum>k<n2. \<Sum>j<n0. elt G [j, i, k, l]) = (\<Sum>j<n0. \<Sum>k<n2. elt G [j, i, k, l])"
      by (rule sum.swap)
    then show ?thesis using that by (simp add: bidx_same2 neg_def ins_simps)
  qed
  show ?thesis using r e by simp
qed

lemma d2K_init:
  assumes a: "a < next_free h"
  shows "\<exists>m h1. Kern_check_d2K_dXdX_init env c h k d (Some a) x2 = Inr (m, h1)
     \<and> kernel m = randomize env c (case k of None \<Rightarrow> RBF env 1 | Some k' \<Rightarrow> k')
     \<and> (\<forall>d'. d = Some d' \<longrightarrow> dL_dK m = d')
     \<and> X2 m = x2
     \<and> X m \<noteq> Xc m \<and> X m \<noteq> a
     \<and> cells h1 (X m) = cells h a \<and> cells h1 (Xc m) = cells h a \<and> cells h1 a = cells h a
     \<and> X_gradient m = zeros (shape (cells h a))"
  using a
  by (cases "Param_shares env")
     (auto simp add: Kern_check_d2K_dXdX_init_def Kern_check_model_def Let_def Param_def copy_def
        alloc_def link_parameter_def split: option.splits)

lemma d2K_changed_sel:
  assumes r: "d2K_parameters_changed h m = Inr m'"
  shows "kernel m' = kernel m" "X m' = X m" "X2 m' = X2 m" "dL_dK m' = dL_dK m" "Xc m' = Xc m"
    and "shape (X_gradient m') = shape (X_gradient m)"
proof -
  from r obtain grads g where
    g: "assign_all (shape (X_gradient m)) grads = Inr g" and m': "m' = m\<lparr>X_gradient := g\<rparr>"
    unfolding d2K_parameters_changed_def by (auto split: sum.splits)
  show "kernel m' = kernel m" "X m' = X m" "X2 m' = X2 m" "dL_dK m' = dL_dK m" "Xc m' = Xc m"
    using m' by simp_all
  show "shape (X_gradient m') = shape (X_gradient m)"
    using g m' by (auto simp add: assign_all_def split: if_splits)
qed

lemma ex_d2K_absent:
  "\<exists>m h1. Kern_check_d2K_dXdX (ex_gpy {} {}) 0 ex_store (Some (ex_kern 1)) None (Some 0) None
             = Inr (m, h1)"
proof -
  let ?E = "ex_gpy {} {}"
  have a: "0 < next_free ex_store" by (simp add: ex_store_0)
  from d2K_init[OF a, of ?E 0 "Some (ex_kern 1)" None None] obtain m0 h1 where
    i: "Kern_check_d2K_dXdX_init ?E 0 ex_store (Some (ex_kern 1)) None (Some 0) None = Inr (m0, h1)"
    and kn: "kernel m0 = randomize ?E 0 (ex_kern 1)"
    and x2: "X2 m0 = None"
    and cs: "cells h1 (X m0) = cells ex_store 0"
    and g: "X_gradient m0 = zeros (shape (cells ex_store 0))"
    by auto
  have k: "kernel m0 = ex_kern 1" using kn by (simp add: ex_gpy_def)
  obtain G where G: "gradients_XX (kernel m0) (dL_dK m0) (cells h1 (X m0)) None = Inr G"
    and sG: "shape G = [1, 1, 2, 2]"
    by (simp add: k cs ex_kern_def ex_store_0 ex_X_shape)
  have sg: "shape (X_gradient m0) = [1, 2]" by (simp add: g zeros_def ex_store_0 ex_X_shape)
  from d2K_grads_absent[OF G sG sg x2] obtain m where
    "d2K_parameters_changed h1 m0 = Inr m" by auto
  then show ?thesis using i by (simp add: Kern_check_d2K_dXdX_def)
qed

lemma ex_d2K_present:
  "\<exists>m h1. Kern_check_d2K_dXdX (ex_gpy {} {}) 0 ex_store (Some (ex_kern 1)) None (Some 0)
             (Some ex_X2) = Inr (m, h1)"
proof -
  let ?E = "ex_gpy {} {}"
  have a: "0 < next_free ex_store" by (simp add: ex_store_0)
  from d2K_init[OF a, of ?E 0 "Some (ex_kern 1)" None "Some ex_X2"] obtain m0 h1 where
    i: "Kern_check_d2K_dXdX_init ?E 0 ex_store (Some (ex_kern 1)) None (Some 0) (Some ex_X2)
          = Inr (m0, h1)"
    and kn: "kernel m0 = randomize ?E 0 (ex_kern 1)"
    and x2: "X2 m0 = Some ex_X2"
    and cs: "cells h1 (X m0) = cells ex_store 0"
    and g: "X_gradient m0 = zeros (shape (cells ex_store 0))"
    by auto
  have k: "kernel m0 = ex_kern 1" using kn by (simp add: ex_gpy_def)
  obtain G where
    G: "gradients_XX (kernel m0) (transpose2 (dL_dK m0)) ex_X2 (Some (cells h1 (X m0))) = Inr G"
    and sG: "shape G = [2, 1, 2, 2]"
    by (simp add: k cs ex_kern_def ex_store_0 ex_X_shape ex_X2_def of_rows_def)
  have sg: "shape (X_gradient m0) = [1, 2]" by (simp add: g zeros_def ex_store_0 ex_X_shape)
  from d2K_grads_present[OF G sG sg x2] obtain m where
    "d2K_parameters_changed h1 m0 = Inr m" by auto
  then show ?thesis using i by (simp add: Kern_check_d2K_dXdX_def)
qed

lemma sum_all_1_2: "shape A = [1, 2] \<Longrightarrow> sum_all A = elt A [0, 0] + elt A [0, 1]"
  by (simp add: sum_all_def indices_def upt2)

text \<open>
  Claim C4. In a second-derivative adapter that was constructed on an allocated \<open>X\<close>,
  \<open>Xc\<close> is in a cell of its own: writing any \<open>x'\<close> into the free \<open>X\<close> leaves \<open>Xc\<close> (and the
  caller's \<open>X\<close>) at the value \<open>X\<close> had at construction. Without \<open>X2\<close> the objective is the
  sum of \<open>gradients_X(dL_dK, x', Xc)\<close>, and the gradient written is, entry by entry, minus
  the sum of \<open>gradients_XX(dL_dK, x')\<close> over its axes 1 and 2. With \<open>X2\<close> the gradient is
  minus the sum of \<open>gradients_XX(dL_dK.T, X2, x')\<close> over its axes 0 and 2. The tensor
  returned by \<open>gradients_XX\<close> is taken four-dimensional, its remaining two axes matching
  the shape of \<open>X\<close>.
\<close>

theorem d2K_adapter:
  assumes a: "a < next_free h"
    and r: "Kern_check_d2K_dXdX env c h k d (Some a) x2 = Inr (m, h1)"
  shows "kernel m = randomize env c (case k of None \<Rightarrow> RBF env 1 | Some k' \<Rightarrow> k')
     \<and> (\<forall>d'. d = Some d' \<longrightarrow> dL_dK m = d')
     \<and> X2 m = x2
     \<and> cells h1 (Xc m) = cells h a
     \<and> (\<forall>i j. elt (transpose2 (dL_dK m)) [j, i] = elt (dL_dK m) [i, j])
     \<and> (\<forall>x'. cells (perturb h1 m x') (Xc m) = cells h a
             \<and> cells (perturb h1 m x') (X m) = x'
             \<and> cells (perturb h1 m x') a = cells h a
             \<and> (x2 = None \<longrightarrow>
                  d2K_log_likelihood (perturb h1 m x') m
                    = map_sum id sum_all
                        (gradients_X (kernel m) (dL_dK m) x' (Some (cells h a))))
             \<and> (\<forall>G n0 n1 n2 q.
                   x2 = None \<and> gradients_XX (kernel m) (dL_dK m) x' None = Inr G
                   \<and> shape G = [n0, n1, n2, q] \<and> shape (cells h a) = [n0, q] \<longrightarrow>
                   (\<exists>m'. d2K_parameters_changed (perturb h1 m x') m = Inr m'
                      \<and> (\<forall>i<n0. \<forall>l<q. elt (X_gradient m') [i, l]
                                          = - (\<Sum>j<n1. \<Sum>k<n2. elt G [i, j, k, l]))))
             \<and> (\<forall>z G n0 n1 n2 q.
                   x2 = Some z
                   \<and> gradients_XX (kernel m) (transpose2 (dL_dK m)) z (Some x') = Inr G
                   \<and> shape G = [n0, n1, n2, q] \<and> shape (cells h a) = [n1, q] \<longrightarrow>
                   (\<exists>m'. d2K_parameters_changed (perturb h1 m x') m = Inr m'
                      \<and> (\<forall>i<n1. \<forall>l<q. elt (X_gradient m') [i, l]
                                          = - (\<Sum>j<n0. \<Sum>k<n2. elt G [j, i, k, l])))))"
proof -
  from r obtain m0 where
    i: "Kern_check_d2K_dXdX_init env c h k d (Some a) x2 = Inr (m0, h1)"
    and pc: "d2K_parameters_changed h1 m0 = Inr m"
    by (auto simp add: Kern_check_d2K_dXdX_def split: sum.splits)
  from d2K_init[OF a, of env c k d x2] i have
    kn0: "kernel m0 = randomize env c (case k of None \<Rightarrow> RBF env 1 | Some k' \<Rightarrow> k')"
    and dl0: "\<forall>d'. d = Some d' \<longrightarrow> dL_dK m0 = d'"
    and x20: "X2 m0 = x2"
    and ne0: "X m0 \<noteq> Xc m0" "X m0 \<noteq> a"
    and cs0: "cells h1 (X m0) = cells h a" "cells h1 (Xc m0) = cells h a" "cells h1 a = cells h a"
    and g0: "X_gradient m0 = zeros (shape (cells h a))"
    by auto
  note s = d2K_changed_sel[OF pc]
  have kn: "kernel m = randomize env c (case k of None \<Rightarrow> RBF env 1 | Some k' \<Rightarrow> k')"
    using kn0 s by simp
  have dl: "\<forall>d'. d = Some d' \<longrightarrow> dL_dK m = d'" using dl0 s by simp
  have x2: "X2 m = x2" using x20 s by simp
  have ne: "X m \<noteq> Xc m" "X m \<noteq> a" using ne0 s by simp_all
  have cs: "cells h1 (X m) = cells h a" "cells h1 (Xc m) = cells h a" "cells h1 a = cells h a"
    using cs0 s by simp_all
  have sg: "shape (X_gradient m) = shape (cells h a)" using s(6) by (simp add: g0 zeros_def)
  have tr: "\<forall>i j. elt (transpose2 (dL_dK m)) [j, i] = elt (dL_dK m) [i, j]"
    by (simp add: transpose2_def)
  have per: "cells (perturb h1 m x') (Xc m) = cells h a
             \<and> cells (perturb h1 m x') (X m) = x'
             \<and> cells (perturb h1 m x') a = cells h a" for x'
    using ne cs by (simp add: perturb_def)
  have ll: "x2 = None \<longrightarrow>
                  d2K_log_likelihood (perturb h1 m x') m
                    = map_sum id sum_all
                        (gradients_X (kernel m) (dL_dK m) x' (Some (cells h a)))" for x'
    using per[of x'] x2 by (simp add: d2K_log_likelihood_def)
  have g1: "\<forall>G n0 n1 n2 q.
                   x2 = None \<and> gradients_XX (kernel m) (dL_dK m) x' None = Inr G
                   \<and> shape G = [n0, n1, n2, q] \<and> shape (cells h a) = [n0, q] \<longrightarrow>
                   (\<exists>m'. d2K_parameters_changed (perturb h1 m x') m = Inr m'
                      \<and> (\<forall>i<n0. \<forall>l<q. elt (X_gradient m') [i, l]
                                          = - (\<Sum>j<n1. \<Sum>k<n2. elt G [i, j, k, l])))" for x'
  proof (intro allI impI)
    fix G n0 n1 n2 q
    assume h: "x2 = None \<and> gradients_XX (kernel m) (dL_dK m) x' None = Inr G
                   \<and> shape G = [n0, n1, n2, q] \<and> shape (cells h a) = [n0, q]"
    have G: "gradients_XX (kernel m) (dL_dK m) (cells (perturb h1 m x') (X m)) None = Inr G"
      using h per[of x'] by simp
    show "\<exists>m'. d2K_parameters_changed (perturb h1 m x') m = Inr m'
                      \<and> (\<forall>i<n0. \<forall>l<q. elt (X_gradient m') [i, l]
                                          = - (\<Sum>j<n1. \<Sum>k<n2. elt G [i, j, k, l]))"
      by (rule d2K_grads_absent[OF G]) (use h sg x2 in simp_all)
  qed
  have g2: "\<forall>z G n0 n1 n2 q.
                   x2 = Some z
                   \<and> gradients_XX (kernel m) (transpose2 (dL_dK m)) z (Some x') = Inr G
                   \<and> shape G = [n0, n1, n2, q] \<and> shape (cells h a) = [n1, q] \<longrightarrow>
                   (\<exists>m'. d2K_parameters_changed (perturb h1 m x') m = Inr m'
                      \<and> (\<forall>i<n1. \<forall>l<q. elt (X_gradient m') [i, l]
                                          = - (\<Sum>j<n0. \<Sum>k<n2. elt G [j, i, k, l])))" for x'
  proof (intro allI impI)
    fix z G n0 n1 n2 q
    assume h: "x2 = Some z
                   \<and> gradients_XX (kernel m) (transpose2 (dL_dK m)) z (Some x') = Inr G
                   \<and> shape G = [n0, n1, n2, q] \<and> shape (cells h a) = [n1, q]"
    have G: "gradients_XX (kernel m) (transpose2 (dL_dK m)) z
               (Some (cells (perturb h1 m x') (X m))) = Inr G"
      using h per[of x'] by simp
    show "\<exists>m'. d2K_parameters_changed (perturb h1 m x') m = Inr m'
                      \<and> (\<forall>i<n1. \<forall>l<q. elt (X_gradient m') [i, l]
                                          = - (\<Sum>j<n0. \<Sum>k<n2. elt G [j, i, k, l]))"
      by (rule d2K_grads_present[OF G]) (use h sg x2 in simp_all)
  qed
  have p1: "cells (perturb h1 m x') (Xc m) = cells h a"
    and p2: "cells (perturb h1 m x') (X m) = x'"
    and p3: "cells (perturb h1 m x') a = cells h a" for x'
    using per[of x'] by simp_all
  show ?thesis
    apply (intro conjI)
         apply (rule kn)
        apply (rule dl)
       apply (rule x2)
      apply (rule cs(2))
     apply (rule tr)
    apply (rule allI)
    apply (intro conjI)
         apply (rule p1)
        apply (rule p2)
       apply (rule p3)
      apply (rule ll)
     apply (rule g1)
    apply (rule g2)
    done
qed

text \<open>
  Claim C4 on two concrete adapters on the one-row \<open>X = (0, 1)\<close>, perturbed to the row
  (5, 7): without \<open>X2\<close>, and with a two-row \<open>X2\<close>.
\<close>

theorem d2K_adapter_witness:
  "(\<exists>m h1. Kern_check_d2K_dXdX (ex_gpy {} {}) 0 ex_store (Some (ex_kern 1)) None (Some 0) None
             = Inr (m, h1)
     \<and> X2 m = None
     \<and> cells (perturb h1 m (of_rows [[5, 7]])) (Xc m) = ex_X
     \<and> d2K_log_likelihood (perturb h1 m (of_rows [[5, 7]])) m = Inr 11
     \<and> (\<exists>m'. d2K_parameters_changed (perturb h1 m (of_rows [[5, 7]])) m = Inr m'
           \<and> elt (X_gradient m') [0, 0] = - 3 \<and> elt (X_gradient m') [0, 1] = - 7))
   \<and> (\<exists>m h1. Kern_check_d2K_dXdX (ex_gpy {} {}) 0 ex_store (Some (ex_kern 1)) None (Some 0)
                (Some ex_X2) = Inr (m, h1)
     \<and> X2 m = Some ex_X2
     \<and> cells (perturb h1 m (of_rows [[5, 7]])) (Xc m) = ex_X
     \<and> (\<exists>m'. d2K_parameters_changed (perturb h1 m (of_rows [[5, 7]])) m = Inr m'
           \<and> elt (X_gradient m') [0, 0] = - 6 \<and> elt (X_gradient m') [0, 1] = - 14))"
proof (intro conjI)
  let ?E = "ex_gpy {} {}"
  let ?x = "of_rows [[5, 7]]"
  have a: "0 < next_free ex_store" by (simp add: ex_store_0)
  have sx: "shape ?x = [1, 2]" by (simp add: of_rows_def)
  show "\<exists>m h1. Kern_check_d2K_dXdX ?E 0 ex_store (Some (ex_kern 1)) None (Some 0) None
             = Inr (m, h1)
     \<and> X2 m = None
     \<and> cells (perturb h1 m ?x) (Xc m) = ex_X
     \<and> d2K_log_likelihood (perturb h1 m ?x) m = Inr 11
     \<and> (\<exists>m'. d2K_parameters_changed (perturb h1 m ?x) m = Inr m'
           \<and> elt (X_gradient m') [0, 0] = - 3 \<and> elt (X_gradient m') [0, 1] = - 7)"
  proof -
    from ex_d2K_absent obtain m h1 where
      r: "Kern_check_d2K_dXdX ?E 0 ex_store (Some (ex_kern 1)) None (Some 0) None = Inr (m, h1)"
      by blast
    note t = d2K_adapter[OF a r]
    note kn = t[THEN conjunct1]
    note x2 = t[THEN conjunct2, THEN conjunct2, THEN conjunct1]
    note p = t[THEN conjunct2, THEN conjunct2, THEN conjunct2, THEN conjunct2, THEN conjunct2,
        THEN spec, of "of_rows [[5, 7]]"]
    note c = p[THEN conjunct1]
    note l = p[THEN conjunct2, THEN conjunct2, THEN conjunct2, THEN conjunct1, THEN mp, OF refl]
    note g = p[THEN conjunct2, THEN conjunct2, THEN conjunct2, THEN conjunct2, THEN conjunct1]
    have k: "kernel m = ex_kern 1" using kn by (simp add: ex_gpy_def)
    have c': "cells (perturb h1 m ?x) (Xc m) = ex_X" using c by (simp add: ex_store_0)
    have l': "d2K_log_likelihood (perturb h1 m ?x) m = Inr 11"
      unfolding l
      by (simp add: k ex_kern_def ex_store_0 sum_all_1_2 sx) (simp add: of_rows_def ex_X_def)
    obtain G where G: "gradients_XX (kernel m) (dL_dK m) ?x None = Inr G"
      and sG: "shape G = [1, 1, 2, 2]"
      and eG: "\<forall>i j k l. elt G [i, j, k, l] = real (k + 2 * l + 1)"
      by (simp add: k ex_kern_def sx)
    from g[rule_format, of G 1 1 2 2] G sG obtain m' where
      pc: "d2K_parameters_changed (perturb h1 m ?x) m = Inr m'"
      and e: "\<forall>i<1. \<forall>l<2. elt (X_gradient m') [i, l] = - (\<Sum>j<1. \<Sum>k<2. elt G [i, j, k, l])"
      by (auto simp add: ex_store_0 ex_X_shape)
    have "elt (X_gradient m') [0, 0] = - 3" "elt (X_gradient m') [0, 1] = - 7"
      using e eG by (simp_all add: lessThan_Suc numeral_2_eq_2)
    then show ?thesis using r x2 c' l' pc by blast
  qed
  show "\<exists>m h1. Kern_check_d2K_dXdX ?E 0 ex_store (Some (ex_kern 1)) None (Some 0)
                (Some ex_X2) = Inr (m, h1)
     \<and> X2 m = Some ex_X2
     \<and> cells (perturb h1 m ?x) (Xc m) = ex_X
     \<and> (\<exists>m'. d2K_parameters_changed (perturb h1 m ?x) m = Inr m'
           \<and> elt (X_gradient m') [0, 0] = - 6 \<and> elt (X_gradient m') [0, 1] = - 14)"
  proof -
    from ex_d2K_present obtain m h1 where
      r: "Kern_check_d2K_dXdX ?E 0 ex_store (Some (ex_kern 1)) None (Some 0) (Some ex_X2)
            = Inr (m, h1)"
      by blast
    note t = d2K_adapter[OF a r]
    note kn = t[THEN conjunct1]
    note x2 = t[THEN conjunct2, THEN conjunct2, THEN conjunct1]
    note p = t[THEN conjunct2, THEN conjunct2, THEN conjunct2, THEN conjunct2, THEN conjunct2,
        THEN spec, of "of_rows [[5, 7]]"]
    note c = p[THEN conjunct1]
    note g = p[THEN conjunct2, THEN conjunct2, THEN conjunct2, THEN conjunct2, THEN conjunct2]
    have k: "kernel m = ex_kern 1" using kn by (simp add: ex_gpy_def)
    have c': "cells (perturb h1 m ?x) (Xc m) = ex_X" using c by (simp add: ex_store_0)
    obtain G where G: "gradients_XX (kernel m) (transpose2 (dL_dK m)) ex_X2 (Some ?x) = Inr G"
      and sG: "shape G = [2, 1, 2, 2]"
      and eG: "\<forall>i j k l. elt G [i, j, k, l] = real (k + 2 * l + 1)"
      by (simp add: k ex_kern_def sx ex_X2_def of_rows_def)
    from g[rule_format, of ex_X2 G 2 1 2 2] G sG obtain m' where
      pc: "d2K_parameters_changed (perturb h1 m ?x) m = Inr m'"
      and e: "\<forall>i<1. \<forall>l<2. elt (X_gradient m') [i, l] = - (\<Sum>j<2. \<Sum>k<2. elt G [j, i, k, l])"
      by (auto simp add: ex_store_0 ex_X_shape)
    have "elt (X_gradient m') [0, 0] = - 6" "elt (X_gradient m') [0, 1] = - 14"
      using e eG by (simp_all add: lessThan_Suc numeral_2_eq_2)
    then show ?thesis using r x2 c' pc by blast
  qed
qed

lemma fst_run_check:
  "fst (run_check env kern x x2 f v c) =
     (if passes env kern x x2 f v c then None
      else Some (case first_run env kern x x2 f v c of
                   Inl e \<Rightarrow> Inl e
                 | Inr _ \<Rightarrow> (case rerun env kern x x2 f c of
                              Inl e \<Rightarrow> Inl e
                            | Inr _ \<Rightarrow> if debug env then Inl AssertionError else Inr False)))"
  by (cases "first_run env kern x x2 f v c")
     (auto simp add: run_check_def passes_def Let_def split: sum.splits)

lemma run_check_stop:
  assumes "\<not> passes env kern x x2 f v c"
  shows "\<exists>r. fst (run_check env kern x x2 f v c) = Some r \<and> r \<noteq> Inr True
             \<and> (debug env \<longrightarrow> r \<noteq> Inr False)"
  using assms
  by (cases "first_run env kern x x2 f v c")
     (auto simp add: fst_run_check passes_def split: sum.splits)

lemma run_check_failed_log:
  assumes "first_run env kern x x2 f v c = Inr False"
  shows "\<exists>out. snd (run_check env kern x x2 f v c)
           = out @ [Printed (fail_msg c), Checkgrad (cls c) (with_X2 c) True]"
  using assms by (auto simp add: run_check_def Let_def split: sum.splits)

lemma fst_run_checks_Cons:
  "fst (run_checks env kern x x2 f v (c # cs)) =
     (case fst (run_check env kern x x2 f v c) of
        Some r \<Rightarrow> r
      | None \<Rightarrow> fst (run_checks env kern x x2 f v cs))"
  by (auto split: prod.splits option.splits)

lemma run_checks_True_iff:
  "fst (run_checks env kern x x2 f v cs) = Inr True
     \<longleftrightarrow> (\<forall>c\<in>set cs. passes env kern x x2 f v c)"
proof (induction cs)
  case Nil
  show ?case by simp
next
  case (Cons c cs)
  show ?case
  proof (cases "passes env kern x x2 f v c")
    case True
    then show ?thesis using Cons.IH by (simp add: fst_run_checks_Cons fst_run_check del: run_checks.simps)
  next
    case False
    from run_check_stop[OF False] obtain r where
      "fst (run_check env kern x x2 f v c) = Some r" "r \<noteq> Inr True" by blast
    then show ?thesis using False by (simp add: fst_run_checks_Cons del: run_checks.simps)
  qed
qed

lemma run_checks_not_False:
  "debug env \<Longrightarrow> fst (run_checks env kern x x2 f v cs) \<noteq> Inr False"
proof (induction cs)
  case Nil
  show ?case by simp
next
  case (Cons c cs)
  show ?case
  proof (cases "passes env kern x x2 f v c")
    case True
    then show ?thesis using Cons by (simp add: fst_run_checks_Cons fst_run_check del: run_checks.simps)
  next
    case False
    from run_check_stop[OF False] Cons.prems obtain r where
      "fst (run_check env kern x x2 f v c) = Some r" "r \<noteq> Inr False" by blast
    then show ?thesis by (simp add: fst_run_checks_Cons del: run_checks.simps)
  qed
qed

lemma run_checks_skip_prefix:
  "\<forall>c\<in>set pre. passes env kern x x2 f v c \<Longrightarrow>
     fst (run_checks env kern x x2 f v (pre @ cs)) = fst (run_checks env kern x x2 f v cs)
     \<and> (\<exists>out. snd (run_checks env kern x x2 f v (pre @ cs))
                 = out @ snd (run_checks env kern x x2 f v cs))"
proof (induction pre)
  case Nil
  show ?case by simp
next
  case (Cons c pre)
  then have p: "passes env kern x x2 f v c" by simp
  then obtain o1 where r: "run_check env kern x x2 f v c = (None, o1)"
    using fst_run_check[of env kern x x2 f v c] by (cases "run_check env kern x x2 f v c") simp
  from Cons obtain o2 where
    i1: "fst (run_checks env kern x x2 f v (pre @ cs)) = fst (run_checks env kern x x2 f v cs)"
    and i2: "snd (run_checks env kern x x2 f v (pre @ cs)) = o2 @ snd (run_checks env kern x x2 f v cs)"
    by auto
  show ?case using r i1 i2 by (auto split: prod.splits)
qed

lemma run_checks_stop_here:
  assumes "\<not> passes env kern x x2 f v c"
  shows "run_checks env kern x x2 f v (c # post) = (the (fst (run_check env kern x x2 f v c)),
           snd (run_check env kern x x2 f v c))"
  using run_check_stop[OF assms] by (auto split: prod.splits option.splits)

lemma fst_driver:
  assumes gx: "(case X' of None \<Rightarrow> default_input env 0 kern 10 oi | Some x \<Rightarrow> Inr x) = Inr x"
    and gx2: "(case X2' of None \<Rightarrow> default_input env 1 kern 20 oi | Some x2 \<Rightarrow> Inr x2) = Inr x2"
  shows "fst (check_kernel_gradient_functions env kern X' X2' oi v f) =
          (case fst (psd_step env kern x) of
             Inl e \<Rightarrow> Inl e
           | Inr result \<Rightarrow>
               if result then fst (run_checks env kern x x2 f v (checks kern))
               else if debug env then Inl AssertionError else Inr False)"
  unfolding check_kernel_gradient_functions_def gx gx2
  by (auto simp add: Let_def split: prod.splits sum.splits)

lemma snd_driver:
  assumes gx: "(case X' of None \<Rightarrow> default_input env 0 kern 10 oi | Some x \<Rightarrow> Inr x) = Inr x"
    and gx2: "(case X2' of None \<Rightarrow> default_input env 1 kern 20 oi | Some x2 \<Rightarrow> Inr x2) = Inr x2"
    and p: "fst (psd_step env kern x) = Inr True"
  shows "\<exists>out. snd (check_kernel_gradient_functions env kern X' X2' oi v f)
            = out @ snd (run_checks env kern x x2 f v (checks kern))"
  using p unfolding check_kernel_gradient_functions_def gx gx2
  by (auto simp add: Let_def split: prod.splits sum.splits)

lemma ex_psd: "fst (psd_step (ex_gpy bad skipped) (ex_kern 1) ex_X) = Inr True"
  by (simp add: psd_step_def alloc_def empty_store_def Kern_check_model_def Let_def
      is_positive_semi_definite_def ex_gpy_def ex_kern_def ex_X_def of_rows_def)

lemma ex_first_run:
  "first_run (ex_gpy bad skipped) k x x2 f v c
     = (if cls c \<in> skipped then Inl NotImplementedError else Inr (cls c \<notin> bad))"
  by (simp add: first_run_def ex_gpy_def)

lemma ex_rerun:
  "rerun (ex_gpy bad skipped) k x x2 f c
     = (if cls c \<in> skipped then Inl NotImplementedError else Inr (cls c \<notin> bad))"
  by (simp add: rerun_def ex_gpy_def)

lemma ex_debug: "debug (ex_gpy bad skipped)"
  by (simp add: ex_gpy_def)

lemma checks_cls:
  "map cls (checks kern) =
     [Cls_dK_dtheta, Cls_dK_dtheta, Cls_dKdiag_dtheta, Cls_dK_dX, Cls_dK_dX, Cls_dKdiag_dX,
      Cls_d2K_dXdX, Cls_d2K_dXdX, Cls_d2Kdiag_dXdX]"
  by (simp add: checks_def)

lemma checks_guarded:
  "map guarded (checks kern) = [False, True, True, True, True, True, True, True, True]"
  by (simp add: checks_def)

lemma checks_nth:
  assumes "i < 9"
  shows "cls (checks kern ! i) = map cls (checks kern) ! i"
    and "guarded (checks kern ! i) = map guarded (checks kern) ! i"
proof -
  have "length (checks kern) = 9" by (simp add: checks_def)
  then show "cls (checks kern ! i) = map cls (checks kern) ! i"
    and "guarded (checks kern ! i) = map guarded (checks kern) ! i"
    using assms by simp_all
qed

lemma psd_step_K:
  "fst (psd_step env kern x)
     = (case K (randomize env 0 kern) x None of
          Inl e \<Rightarrow> Inl e
        | Inr Kxx \<Rightarrow> Inr (\<not> list_ex (\<lambda>z. Re z \<le> - (1 / 10000000000)) (eig env Kxx)))"
  by (simp add: psd_step_def alloc_def empty_store_def Kern_check_model_def Let_def
      is_positive_semi_definite_def split: sum.splits)

text \<open>
  Claim C1, as stated, fails: with assertions enabled, a gradient check that returns false
  (here the check of \<open>K(X, X)\<close> with respect to \<open>X\<close>) makes the driver raise
  \<open>AssertionError\<close>; it does not return false.
\<close>

theorem driver_raises_on_mismatch:
  "debug (ex_gpy {Cls_dK_dX} {})
   \<and> first_run (ex_gpy {Cls_dK_dX} {}) (ex_kern 1) ex_X ex_X2 None False (checks (ex_kern 1) ! 3)
       = Inr False
   \<and> fst (check_kernel_gradient_functions (ex_gpy {Cls_dK_dX} {}) (ex_kern 1)
            (Some ex_X) (Some ex_X2) None False None) = Inl AssertionError"
proof -
  have gx: "(case Some ex_X of None \<Rightarrow> default_input (ex_gpy {Cls_dK_dX} {}) 0 (ex_kern 1) 10 None
             | Some x \<Rightarrow> Inr x) = Inr ex_X" by simp
  have gx2: "(case Some ex_X2 of None \<Rightarrow> default_input (ex_gpy {Cls_dK_dX} {}) 1 (ex_kern 1) 20 None
             | Some x \<Rightarrow> Inr x) = Inr ex_X2" by simp
  have c3: "cls (checks (ex_kern 1) ! 3) = Cls_dK_dX"
    by (simp add: checks_nth checks_cls)
  have "fst (run_checks (ex_gpy {Cls_dK_dX} {}) (ex_kern 1) ex_X ex_X2 None False
               (checks (ex_kern 1))) = Inl AssertionError"
    unfolding checks_def
    by (simp add: fst_run_checks_Cons fst_run_check passes_def ex_first_run ex_rerun ex_debug
        del: run_checks.simps)
  then show ?thesis
    by (simp add: fst_driver[OF gx gx2] ex_psd ex_debug ex_first_run c3)
qed

text \<open>
  Claim C1, amended. Once the location matrices are there: with assertions enabled the
  driver never returns false. It returns true exactly when the positive-semi-definiteness
  check returns true and each of the nine gradient checks returns true or is skipped. A
  false positive-semi-definiteness check has no re-run and ends the call at
  \<open>assert result\<close>: \<open>AssertionError\<close>, or false when assertions are disabled. The first
  gradient check that returns false ends the call after its message and its verbose
  re-run, which are the last two events of the call: when the re-run raises, its
  exception is what reaches the caller; when the re-run returns, \<open>assert result\<close> raises
  \<open>AssertionError\<close>, or the call returns false when assertions are disabled.
\<close>

theorem driver_outcome:
  assumes gx: "(case X' of None \<Rightarrow> default_input env 0 kern 10 oi | Some x \<Rightarrow> Inr x) = Inr x"
    and gx2: "(case X2' of None \<Rightarrow> default_input env 1 kern 20 oi | Some x2 \<Rightarrow> Inr x2) = Inr x2"
  shows "(debug env \<longrightarrow> fst (check_kernel_gradient_functions env kern X' X2' oi v f) \<noteq> Inr False)
    \<and> (fst (check_kernel_gradient_functions env kern X' X2' oi v f) = Inr True
         \<longleftrightarrow> fst (psd_step env kern x) = Inr True
             \<and> (\<forall>c\<in>set (checks kern). passes env kern x x2 f v c))
    \<and> (fst (psd_step env kern x) = Inr False \<longrightarrow>
         fst (check_kernel_gradient_functions env kern X' X2' oi v f)
           = (if debug env then Inl AssertionError else Inr False))
    \<and> (\<forall>pre c post.
          fst (psd_step env kern x) = Inr True \<and> checks kern = pre @ c # post
          \<and> (\<forall>c'\<in>set pre. passes env kern x x2 f v c')
          \<and> first_run env kern x x2 f v c = Inr False \<longrightarrow>
          fst (check_kernel_gradient_functions env kern X' X2' oi v f)
            = (case rerun env kern x x2 f c of
                 Inl e \<Rightarrow> Inl e
               | Inr _ \<Rightarrow> if debug env then Inl AssertionError else Inr False)
          \<and> (\<exists>out. snd (check_kernel_gradient_functions env kern X' X2' oi v f)
                      = out @ [Printed (fail_msg c), Checkgrad (cls c) (with_X2 c) True]))"
proof (intro conjI allI impI)
  note D = fst_driver[OF gx gx2, of v f]
  {
    assume d: "debug env"
    show "fst (check_kernel_gradient_functions env kern X' X2' oi v f) \<noteq> Inr False"
      using run_checks_not_False[OF d, of kern x x2 f v "checks kern"] d
      by (simp add: D split: sum.splits)
  }
  show "fst (check_kernel_gradient_functions env kern X' X2' oi v f) = Inr True
         \<longleftrightarrow> fst (psd_step env kern x) = Inr True
             \<and> (\<forall>c\<in>set (checks kern). passes env kern x x2 f v c)"
    using run_checks_True_iff[of env kern x x2 f v "checks kern"]
    by (auto simp add: D split: sum.splits)
  {
    assume "fst (psd_step env kern x) = Inr False"
    then show "fst (check_kernel_gradient_functions env kern X' X2' oi v f)
           = (if debug env then Inl AssertionError else Inr False)"
      by (simp add: D)
  }
  {
    fix pre c post
    assume h: "fst (psd_step env kern x) = Inr True \<and> checks kern = pre @ c # post
          \<and> (\<forall>c'\<in>set pre. passes env kern x x2 f v c')
          \<and> first_run env kern x x2 f v c = Inr False"
    then have np: "\<not> passes env kern x x2 f v c" by (simp add: passes_def)
    from h have pre: "\<forall>c'\<in>set pre. passes env kern x x2 f v c'" by blast
    note sp = run_checks_skip_prefix[OF pre, of "c # post"]
    note st = run_checks_stop_here[OF np, of post]
    have fc: "fst (run_check env kern x x2 f v c)
        = Some (case rerun env kern x x2 f c of
                 Inl e \<Rightarrow> Inl e
               | Inr _ \<Rightarrow> if debug env then Inl AssertionError else Inr False)"
      using h np by (simp add: fst_run_check)
    show "fst (check_kernel_gradient_functions env kern X' X2' oi v f)
            = (case rerun env kern x x2 f c of
                 Inl e \<Rightarrow> Inl e
               | Inr _ \<Rightarrow> if debug env then Inl AssertionError else Inr False)"
      using h sp st fc by (simp add: D del: run_checks.simps)
    from h have p: "fst (psd_step env kern x) = Inr True" by blast
    from h have fl: "first_run env kern x x2 f v c = Inr False" by blast
    from snd_driver[OF gx gx2 p, of v f] obtain o1 where
      o1: "snd (check_kernel_gradient_functions env kern X' X2' oi v f)
            = o1 @ snd (run_checks env kern x x2 f v (checks kern))" by blast
    from sp obtain o2 where
      o2: "snd (run_checks env kern x x2 f v (pre @ c # post))
            = o2 @ snd (run_checks env kern x x2 f v (c # post))" by blast
    from run_check_failed_log[OF fl] obtain o3 where
      o3: "snd (run_check env kern x x2 f v c)
           = o3 @ [Printed (fail_msg c), Checkgrad (cls c) (with_X2 c) True]" by blast
    have "snd (check_kernel_gradient_functions env kern X' X2' oi v f)
            = (o1 @ o2 @ o3) @ [Printed (fail_msg c), Checkgrad (cls c) (with_X2 c) True]"
      using h o1 o2 o3 st by (simp del: run_checks.simps)
    then show "\<exists>out. snd (check_kernel_gradient_functions env kern X' X2' oi v f)
                      = out @ [Printed (fail_msg c), Checkgrad (cls c) (with_X2 c) True]"
      by blast
  }
qed

text \<open>
  Claim C1, amended, on a kernel that passes every check and on one that fails the check
  of \<open>Kdiag\<close> with respect to the hyperparameters.
\<close>

theorem driver_outcome_witness:
  "fst (check_kernel_gradient_functions (ex_gpy {} {}) (ex_kern 1)
          (Some ex_X) (Some ex_X2) None False None) = Inr True
   \<and> fst (check_kernel_gradient_functions (ex_gpy {Cls_dKdiag_dtheta} {}) (ex_kern 1)
          (Some ex_X) (Some ex_X2) None False None) \<noteq> Inr False"
proof -
  have gx: "(case Some ex_X of None \<Rightarrow> default_input (ex_gpy bad {}) 0 (ex_kern 1) 10 None
             | Some x \<Rightarrow> Inr x) = Inr ex_X" for bad by simp
  have gx2: "(case Some ex_X2 of None \<Rightarrow> default_input (ex_gpy bad {}) 1 (ex_kern 1) 20 None
             | Some x \<Rightarrow> Inr x) = Inr ex_X2" for bad by simp
  have all: "\<forall>c\<in>set (checks (ex_kern 1)).
               passes (ex_gpy {} {}) (ex_kern 1) ex_X ex_X2 None False c"
    by (simp add: checks_def passes_def ex_first_run)
  have a: "fst (check_kernel_gradient_functions (ex_gpy {} {}) (ex_kern 1)
          (Some ex_X) (Some ex_X2) None False None) = Inr True"
    using driver_outcome[OF gx gx2, of "{}" False None] all ex_psd[of "{}" "{}"] by blast
  have b: "fst (check_kernel_gradient_functions (ex_gpy {Cls_dKdiag_dtheta} {}) (ex_kern 1)
          (Some ex_X) (Some ex_X2) None False None) \<noteq> Inr False"
    using driver_outcome[OF gx gx2, of "{Cls_dKdiag_dtheta}" False None]
      ex_debug[of "{Cls_dKdiag_dtheta}" "{}"] by blast
  show ?thesis using a b by blast
qed

text \<open>
  Claim C3. Of the nine gradient checks only the first (check 2 of the battery) stands
  outside a \<open>try\<close>. A \<open>NotImplementedError\<close> raised by \<open>K\<close> in the
  positive-semi-definiteness check, or by check 2, leaves the driver uncaught. Raised by
  the first run of any of the checks 3 to 10, reached after the checks before it have
  passed, it lets the driver go on: the outcome of the call is the outcome of the
  remaining checks.
\<close>

theorem driver_skip_paths:
  assumes gx: "(case X' of None \<Rightarrow> default_input env 0 kern 10 oi | Some x \<Rightarrow> Inr x) = Inr x"
    and gx2: "(case X2' of None \<Rightarrow> default_input env 1 kern 20 oi | Some x2 \<Rightarrow> Inr x2) = Inr x2"
  shows "length (checks kern) = 9
    \<and> \<not> guarded (checks kern ! 0)
    \<and> (\<forall>i. 1 \<le> i \<and> i < 9 \<longrightarrow> guarded (checks kern ! i))
    \<and> (K (randomize env 0 kern) x None = Inl NotImplementedError \<longrightarrow>
         fst (check_kernel_gradient_functions env kern X' X2' oi v f) = Inl NotImplementedError)
    \<and> (fst (psd_step env kern x) = Inr True
         \<and> first_run env kern x x2 f v (checks kern ! 0) = Inl NotImplementedError \<longrightarrow>
         fst (check_kernel_gradient_functions env kern X' X2' oi v f) = Inl NotImplementedError)
    \<and> (\<forall>i. 1 \<le> i \<and> i < 9 \<and> fst (psd_step env kern x) = Inr True
            \<and> (\<forall>j<i. passes env kern x x2 f v (checks kern ! j))
            \<and> first_run env kern x x2 f v (checks kern ! i) = Inl NotImplementedError \<longrightarrow>
            fst (run_check env kern x x2 f v (checks kern ! i)) = None
            \<and> fst (check_kernel_gradient_functions env kern X' X2' oi v f)
                = fst (run_checks env kern x x2 f v (drop (Suc i) (checks kern))))"
proof (intro conjI allI impI)
  note D = fst_driver[OF gx gx2, of v f]
  show len: "length (checks kern) = 9" by (simp add: checks_def)
  show g0: "\<not> guarded (checks kern ! 0)" by (simp add: checks_def)
  have gi: "guarded (checks kern ! i)" if "1 \<le> i \<and> i < 9" for i :: nat
  proof -
    have "map guarded (checks kern) ! i"
      using that by (auto simp add: checks_guarded nth_Cons')
    then show ?thesis using that checks_nth(2)[of i kern] by simp
  qed
  {
    fix i :: nat assume "1 \<le> i \<and> i < 9"
    then show "guarded (checks kern ! i)" by (rule gi)
  }
  {
    assume "K (randomize env 0 kern) x None = Inl NotImplementedError"
    then show "fst (check_kernel_gradient_functions env kern X' X2' oi v f)
                 = Inl NotImplementedError"
      by (simp add: D psd_step_K)
  }
  {
    assume h: "fst (psd_step env kern x) = Inr True
         \<and> first_run env kern x x2 f v (checks kern ! 0) = Inl NotImplementedError"
    obtain c cs where cs: "checks kern = c # cs" using len by (cases "checks kern") simp_all
    then have c: "c = checks kern ! 0" by simp
    have "fst (run_check env kern x x2 f v c) = Some (Inl NotImplementedError)"
      using h g0 c by (simp add: fst_run_check passes_def)
    then have "fst (run_checks env kern x x2 f v (checks kern)) = Inl NotImplementedError"
      unfolding cs by (simp add: fst_run_checks_Cons del: run_checks.simps)
    then show "fst (check_kernel_gradient_functions env kern X' X2' oi v f)
                 = Inl NotImplementedError"
      using h by (simp add: D)
  }
  {
    fix i
    assume h: "1 \<le> i \<and> i < 9 \<and> fst (psd_step env kern x) = Inr True
            \<and> (\<forall>j<i. passes env kern x x2 f v (checks kern ! j))
            \<and> first_run env kern x x2 f v (checks kern ! i) = Inl NotImplementedError"
    then have i: "1 \<le> i \<and> i < 9" by blast
    have pi: "passes env kern x x2 f v (checks kern ! i)"
      using h gi[OF i] by (simp add: passes_def)
    show n: "fst (run_check env kern x x2 f v (checks kern ! i)) = None"
      using pi by (simp add: fst_run_check)
    have split: "checks kern = take i (checks kern) @ checks kern ! i # drop (Suc i) (checks kern)"
      using i len by (simp add: id_take_nth_drop)
    have pre: "\<forall>c\<in>set (take i (checks kern)). passes env kern x x2 f v c"
    proof
      fix c assume "c \<in> set (take i (checks kern))"
      then obtain j where "j < i" "c = checks kern ! j"
        using i len by (auto simp add: in_set_conv_nth)
      then show "passes env kern x x2 f v c" using h by blast
    qed
    have "fst (run_checks env kern x x2 f v (checks kern))
            = fst (run_checks env kern x x2 f v (checks kern ! i # drop (Suc i) (checks kern)))"
      using run_checks_skip_prefix[OF pre, of "checks kern ! i # drop (Suc i) (checks kern)"]
        split by simp
    also have "\<dots> = fst (run_checks env kern x x2 f v (drop (Suc i) (checks kern)))"
      using n by (simp add: fst_run_checks_Cons del: run_checks.simps)
    finally show "fst (check_kernel_gradient_functions env kern X' X2' oi v f)
                = fst (run_checks env kern x x2 f v (drop (Suc i) (checks kern)))"
      using h by (simp add: D)
  }
qed

text \<open>
  Claim C3 on a kernel whose last check raises \<open>NotImplementedError\<close>: the call returns
  true.
\<close>

theorem driver_skip_paths_witness:
  "fst (check_kernel_gradient_functions (ex_gpy {} {Cls_d2Kdiag_dXdX}) (ex_kern 1)
          (Some ex_X) (Some ex_X2) None False None) = Inr True"
proof -
  let ?env = "ex_gpy {} {Cls_d2Kdiag_dXdX}"
  have gx: "(case Some ex_X of None \<Rightarrow> default_input ?env 0 (ex_kern 1) 10 None
             | Some x \<Rightarrow> Inr x) = Inr ex_X" by simp
  have gx2: "(case Some ex_X2 of None \<Rightarrow> default_input ?env 1 (ex_kern 1) 20 None
             | Some x \<Rightarrow> Inr x) = Inr ex_X2" by simp
  have p: "fst (psd_step ?env (ex_kern 1) ex_X) = Inr True" by (rule ex_psd)
  have pre: "\<forall>j<8. passes ?env (ex_kern 1) ex_X ex_X2 None False (checks (ex_kern 1) ! j)"
  proof (intro allI impI)
    fix j :: nat assume j: "j < 8"
    then have "map cls (checks (ex_kern 1)) ! j \<noteq> Cls_d2Kdiag_dXdX"
      by (auto simp add: checks_cls nth_Cons')
    then have "cls (checks (ex_kern 1) ! j) \<noteq> Cls_d2Kdiag_dXdX"
      using j checks_nth(1)[of j "ex_kern 1"] by simp
    then show "passes ?env (ex_kern 1) ex_X ex_X2 None False (checks (ex_kern 1) ! j)"
      by (simp add: passes_def ex_first_run)
  qed
  have fr: "first_run ?env (ex_kern 1) ex_X ex_X2 None False (checks (ex_kern 1) ! 8)
              = Inl NotImplementedError"
    by (simp add: ex_first_run checks_nth checks_cls)
  have "fst (check_kernel_gradient_functions ?env (ex_kern 1) (Some ex_X) (Some ex_X2) None False None)
          = fst (run_checks ?env (ex_kern 1) ex_X ex_X2 None False (drop (Suc 8) (checks (ex_kern 1))))"
  proof -
    from driver_skip_paths[OF gx gx2, of False None]
    have "\<forall>i. 1 \<le> i \<and> i < 9 \<and> fst (psd_step ?env (ex_kern 1) ex_X) = Inr True
            \<and> (\<forall>j<i. passes ?env (ex_kern 1) ex_X ex_X2 None False (checks (ex_kern 1) ! j))
            \<and> first_run ?env (ex_kern 1) ex_X ex_X2 None False (checks (ex_kern 1) ! i)
                = Inl NotImplementedError \<longrightarrow>
            fst (run_check ?env (ex_kern 1) ex_X ex_X2 None False (checks (ex_kern 1) ! i)) = None
            \<and> fst (check_kernel_gradient_functions ?env (ex_kern 1) (Some ex_X) (Some ex_X2)
                     None False None)
                = fst (run_checks ?env (ex_kern 1) ex_X ex_X2 None False
                         (drop (Suc i) (checks (ex_kern 1))))"
      by blast
    from this[rule_format, of 8] p pre fr show ?thesis by simp
  qed
  also have "\<dots> = Inr True" by (simp add: checks_def)
  finally show ?thesis .
qed

section \<open>Properties of the Psi-statistics cross-check\<close>











lemma py_assert_iff: "debug env \<Longrightarrow> py_assert env v = Inr () \<longleftrightarrow> v"
  by (simp add: py_assert_def)

lemma py_assert_True: "py_assert env True = Inr ()"
  by (simp add: py_assert_def)



























end
